theory Spec2Isabelle
  imports Complex_Main "HOL-Library.Sublist" "HOL-Library.Multiset"
    "HOL-Library.Product_Lexorder" "HOL-Library.Word"
begin

section \<open>Python values and exceptions\<close>

text \<open>
  A Python \<open>str\<close> is modelled by the HOL string of its UTF-8 bytes (a lone surrogate,
  which a \<open>str\<close> parsed from JSON may hold, by the three bytes that the \<open>surrogatepass\<close>
  handler gives it). Concatenation, equality, emptiness and the search for an ASCII
  substring are the same on code points and on their encoding; \<open>str.strip\<close> is written
  out on the encoded whitespace code points below.

  An exception is a value: its class, as far as the handlers distinguish classes, and
  the text \<open>str(e)\<close> that the handlers interpolate into messages.
\<close>

datatype exn =
    ValueError string
  | TypeError string
  | AttributeError string
  | OverflowError string
  | OtherException string

fun str_exn :: "exn \<Rightarrow> string" where
  "str_exn (ValueError m) = m"
| "str_exn (TypeError m) = m"
| "str_exn (AttributeError m) = m"
| "str_exn (OverflowError m) = m"
| "str_exn (OtherException m) = m"

text \<open>
  A parsed JSON value, as \<open>request.get_json()\<close> returns it and as \<open>jsonify\<close> sends
  it: \<open>None\<close>, a \<open>bool\<close>, an \<open>int\<close>, a \<open>float\<close> (only its being zero is
  observed), a \<open>str\<close>, a \<open>list\<close> or a \<open>dict\<close> (an association list, looked up
  with \<open>map_of\<close>).
\<close>

datatype json =
    JNull
  | JBool bool
  | JInt int
  | JFloat rat
  | JStr string
  | JArr "json list"
  | JObj "(string \<times> json) list"

text \<open>Truthiness: \<open>not data\<close> is \<open>\<not> truthy data\<close>.\<close>

fun truthy :: "json \<Rightarrow> bool" where
  "truthy JNull = False"
| "truthy (JBool b) = b"
| "truthy (JInt i) = (i \<noteq> 0)"
| "truthy (JFloat r) = (r \<noteq> 0)"
| "truthy (JStr s) = (s \<noteq> [])"
| "truthy (JArr xs) = (xs \<noteq> [])"
| "truthy (JObj kvs) = (kvs \<noteq> [])"

definition quoted :: "string \<Rightarrow> string" where
  "quoted s = CHR 0x27 # s @ [CHR 0x27]"

definition not_iterable :: "string \<Rightarrow> exn" where
  "not_iterable ty = TypeError (''argument of type '' @ quoted ty @ '' is not iterable'')"

text \<open>
  \<open>key in data\<close> for a \<open>str\<close> key: key membership in a dict, element membership in
  a list, substring search in a string, and \<open>TypeError\<close> on \<open>None\<close>, a bool or a
  number, which are not iterable.
\<close>

fun py_in :: "string \<Rightarrow> json \<Rightarrow> exn + bool" where
  "py_in k (JObj kvs) = Inr (k \<in> set (map fst kvs))"
| "py_in k (JArr xs) = Inr (JStr k \<in> set xs)"
| "py_in k (JStr s) = Inr (sublist k s)"
| "py_in k JNull = Inl (not_iterable ''NoneType'')"
| "py_in k (JBool b) = Inl (not_iterable ''bool'')"
| "py_in k (JInt i) = Inl (not_iterable ''int'')"
| "py_in k (JFloat r) = Inl (not_iterable ''float'')"

text \<open>\<open>data.get(key, default)\<close>: only a dict has the method.\<close>

definition no_attribute :: "string \<Rightarrow> string \<Rightarrow> exn" where
  "no_attribute ty attr =
     AttributeError (quoted ty @ '' object has no attribute '' @ quoted attr)"

fun py_get :: "json \<Rightarrow> string \<Rightarrow> json \<Rightarrow> exn + json" where
  "py_get (JObj kvs) k dflt = Inr (case map_of kvs k of None \<Rightarrow> dflt | Some v \<Rightarrow> v)"
| "py_get (JArr xs) k dflt = Inl (no_attribute ''list'' ''get'')"
| "py_get (JStr s) k dflt = Inl (no_attribute ''str'' ''get'')"
| "py_get JNull k dflt = Inl (no_attribute ''NoneType'' ''get'')"
| "py_get (JBool b) k dflt = Inl (no_attribute ''bool'' ''get'')"
| "py_get (JInt i) k dflt = Inl (no_attribute ''int'' ''get'')"
| "py_get (JFloat r) k dflt = Inl (no_attribute ''float'' ''get'')"

section \<open>Whitespace\<close>

text \<open>
  The code points that \<open>str.strip()\<close> removes (those for which \<open>str.isspace\<close>
  holds), each as its UTF-8 bytes: U+0009 to U+000D, U+001C to U+0020, U+0085, U+00A0,
  U+1680, U+2000 to U+200A, U+2028, U+2029, U+202F, U+205F and U+3000.
\<close>

definition py_whitespace :: "string list" where
  "py_whitespace =
     [[CHR 0x09], [CHR 0x0A], [CHR 0x0B], [CHR 0x0C], [CHR 0x0D],
      [CHR 0x1C], [CHR 0x1D], [CHR 0x1E], [CHR 0x1F], [CHR 0x20],
      [CHR 0xC2, CHR 0x85], [CHR 0xC2, CHR 0xA0],
      [CHR 0xE1, CHR 0x9A, CHR 0x80],
      [CHR 0xE2, CHR 0x80, CHR 0x80], [CHR 0xE2, CHR 0x80, CHR 0x81],
      [CHR 0xE2, CHR 0x80, CHR 0x82], [CHR 0xE2, CHR 0x80, CHR 0x83],
      [CHR 0xE2, CHR 0x80, CHR 0x84], [CHR 0xE2, CHR 0x80, CHR 0x85],
      [CHR 0xE2, CHR 0x80, CHR 0x86], [CHR 0xE2, CHR 0x80, CHR 0x87],
      [CHR 0xE2, CHR 0x80, CHR 0x88], [CHR 0xE2, CHR 0x80, CHR 0x89],
      [CHR 0xE2, CHR 0x80, CHR 0x8A],
      [CHR 0xE2, CHR 0x80, CHR 0xA8], [CHR 0xE2, CHR 0x80, CHR 0xA9],
      [CHR 0xE2, CHR 0x80, CHR 0xAF],
      [CHR 0xE2, CHR 0x81, CHR 0x9F],
      [CHR 0xE3, CHR 0x80, CHR 0x80]]"

text \<open>Removing, from the front of \<open>s\<close>, every leading occurrence of one of \<open>ws\<close>.\<close>

function strip_prefixes :: "string list \<Rightarrow> string \<Rightarrow> string" where
  "strip_prefixes ws s =
     (case find (\<lambda>w. w \<noteq> [] \<and> prefix w s) ws of
        None \<Rightarrow> s
      | Some w \<Rightarrow> strip_prefixes ws (drop (length w) s))"
  by pat_completeness auto
termination
proof (relation "measure (\<lambda>(ws, s). length s)")
  show "wf (measure (\<lambda>(ws, s). length s))" by simp
next
  fix ws :: "string list" and s w :: string
  assume "find (\<lambda>w. w \<noteq> [] \<and> prefix w s) ws = Some w"
  then have "w \<noteq> []" and "prefix w s"
    by (auto simp: find_Some_iff)
  then have "s \<noteq> []" by auto
  with \<open>w \<noteq> []\<close> show "((ws, drop (length w) s), (ws, s)) \<in> measure (\<lambda>(ws, s). length s)"
    by simp
qed

declare strip_prefixes.simps [simp del]

definition lstrip :: "string \<Rightarrow> string" where
  "lstrip s = strip_prefixes py_whitespace s"

definition rstrip :: "string \<Rightarrow> string" where
  "rstrip s = rev (strip_prefixes (map rev py_whitespace) (rev s))"

definition py_strip :: "string \<Rightarrow> string" where
  "py_strip s = rstrip (lstrip s)"

section \<open>The world outside the handlers\<close>

text \<open>
  What one request finds outside the repository's own code: the environment variable,
  the PDF library, the model SDK and the clock. \<open>generative_model name\<close> is the call
  \<open>genai.GenerativeModel(name)\<close>: it raises or builds a handle, and a handle is
  identified by the name it was built with. \<open>generate_content name prompt\<close> is
  \<open>model.generate_content(prompt)\<close> followed by \<open>response.text\<close>, and
  \<open>send_message name context prompt\<close> is \<open>start_chat\<close> with the two seeded turns,
  \<open>chat.send_message(prompt)\<close> and \<open>response.text\<close>; either raises or gives the text.
  \<open>pdf_reader\<close> is \<open>PyPDF2.PdfReader(stream).pages\<close>, each page being what its
  \<open>extract_text()\<close> does. \<open>utcnow k\<close> is what \<open>datetime.utcnow\<close> returns at the
  \<open>k\<close>-th row inserted by the request. \<open>py_str\<close> is \<open>str()\<close> of a value that is
  not a string.

  \<open>py_print text\<close> is what \<open>print(text)\<close> does on the server's standard output: it
  returns, or it raises (a text that the stream cannot encode raises
  \<open>UnicodeEncodeError\<close>, which is a \<open>ValueError\<close>). It stands for the two prints of
  \<open>get_gemini_model\<close>, whose text carries the model name that the client sent. The other
  prints of the program write a fixed text followed by the message of an exception that
  a library raised; they are taken to return.
\<close>

record datetime =
  year :: nat
  month :: nat
  day :: nat
  hour :: nat
  minute :: nat
  second :: nat
  microsecond :: nat

type_synonym bytes = "8 word list"

record world =
  getenv_GOOGLE_API_KEY :: "string option"
  generative_model :: "string \<Rightarrow> exn option"
  generate_content :: "string \<Rightarrow> string \<Rightarrow> exn + string"
  send_message :: "string \<Rightarrow> string \<Rightarrow> string \<Rightarrow> exn + string"
  pdf_reader :: "bytes \<Rightarrow> exn + (exn + string) list"
  utcnow :: "nat \<Rightarrow> datetime"
  py_str :: "json \<Rightarrow> string"
  py_print :: "string \<Rightarrow> exn option"

section \<open>Helper functions\<close>

text \<open>A value interpolated into an f-string.\<close>

definition format_value :: "world \<Rightarrow> json \<Rightarrow> string" where
  "format_value w v = (case v of JStr s \<Rightarrow> s | _ \<Rightarrow> py_str w v)"

subsection \<open>\<open>get_gemini_model\<close>\<close>

definition allowed_models :: "string list" where
  "allowed_models = [''gemini-1.5-pro'', ''gemini-1.5-flash'']"

text \<open>
  \<open>os.getenv\<close> gives \<open>None\<close> or a string, and \<open>not os.getenv(...)\<close> holds for
  \<open>None\<close> and for the empty string.
\<close>

definition api_key_present :: "world \<Rightarrow> bool" where
  "api_key_present w =
     (case getenv_GOOGLE_API_KEY w of None \<Rightarrow> False | Some k \<Rightarrow> k \<noteq> [])"

text \<open>
  The name the constructor is called with. A requested name that is not a string (a
  caller of \<open>/ask\<close> may send any JSON value) is never in the list.
\<close>

definition validated_model_name :: "json \<Rightarrow> string" where
  "validated_model_name model_name =
     (if model_name \<notin> set (map JStr allowed_models) then ''gemini-1.5-flash''
      else (case model_name of JStr s \<Rightarrow> s | _ \<Rightarrow> ''gemini-1.5-flash''))"

text \<open>
  The \<open>except\<close> branch: it prints the name as it stands when the exception arrives and
  the exception, then raises its \<open>ValueError\<close>. A print that raises there ends the call
  with its own exception.
\<close>

definition initialization_failed :: "world \<Rightarrow> string \<Rightarrow> exn \<Rightarrow> exn" where
  "initialization_failed w shown_name e =
     (case py_print w (''Error initializing Gemini model '' @ quoted shown_name @ '': ''
             @ str_exn e) of
        Some raised \<Rightarrow> raised
      | None \<Rightarrow>
          ValueError (''Failed to initialize Gemini model '' @ quoted shown_name
            @ ''. Ensure API key is valid and model exists: '' @ str_exn e))"

text \<open>The warning about a name that is not allowed.\<close>

definition invalid_model_warning :: "world \<Rightarrow> json \<Rightarrow> string" where
  "invalid_model_warning w model_name =
     ''Warning: Invalid model '' @ quoted (format_value w model_name)
       @ '' requested. Defaulting to '' @ quoted ''gemini-1.5-flash'' @ ''.''"

text \<open>
  The warning is printed, inside the \<open>try\<close>, before the default name is assigned: when
  that print raises, the constructor is not called and the name is still the requested
  one.
\<close>

definition get_gemini_model :: "world \<Rightarrow> json \<Rightarrow> exn + string" where
  "get_gemini_model w model_name =
     (if \<not> api_key_present w
      then Inl (ValueError ''GOOGLE_API_KEY is not set. Cannot initialize Gemini model.'')
      else
        (case (if model_name \<notin> set (map JStr allowed_models)
               then py_print w (invalid_model_warning w model_name)
               else None) of
           Some e \<Rightarrow> Inl (initialization_failed w (format_value w model_name) e)
         | None \<Rightarrow>
             (let name = validated_model_name model_name
              in case generative_model w name of
                   None \<Rightarrow> Inr name
                 | Some e \<Rightarrow> Inl (initialization_failed w name e))))"

subsection \<open>\<open>extract_text_from_pdf\<close>\<close>

text \<open>
  The generator calls \<open>extract_text()\<close> on the pages in order; the first page that
  raises ends the whole extraction in the \<open>except\<close> branch.
\<close>

fun page_texts :: "(exn + string) list \<Rightarrow> exn + string list" where
  "page_texts [] = Inr []"
| "page_texts (Inl e # ps) = Inl e"
| "page_texts (Inr t # ps) =
     (case page_texts ps of Inl e \<Rightarrow> Inl e | Inr ts \<Rightarrow> Inr (t # ts))"

definition extract_text_from_pdf :: "world \<Rightarrow> bytes \<Rightarrow> string option" where
  "extract_text_from_pdf w file_stream =
     (case pdf_reader w file_stream of
        Inl e \<Rightarrow> None
      | Inr pages \<Rightarrow>
          (case page_texts pages of
             Inl e \<Rightarrow> None
           | Inr ts \<Rightarrow> Some (concat (filter (\<lambda>t. t \<noteq> []) ts))))"

subsection \<open>The prompt templates\<close>

definition nl :: string where
  "nl = [CHR 0x0A]"

definition analysis_prompt_head :: string where
  \<open>analysis_prompt_head = concat
     [nl,
      ''**Role:** You are an expert legal analyst AI specializing in **Indian Law**.'',
      nl,
      ''**Task:** Analyze the provided legal document from the perspective of **Indian law**. Your analysis must be clear, structured, and reference specific clauses. Cite relevant Indian statutes where applicable.'',
      nl,
      nl,
      ''---'',
      nl,
      ''**User'' @ [CHR 0x27] @ ''s Specific Request:** "'']\<close>

definition analysis_prompt_middle :: string where
  \<open>analysis_prompt_middle = concat
     [''"'',
      nl,
      ''---'',
      nl,
      ''**Document Text:**'',
      nl]\<close>

definition analysis_prompt_tail :: string where
  \<open>analysis_prompt_tail = concat
     [nl,
      ''---'',
      nl,
      ''**Your Structured Analysis (Indian Legal Context):**'',
      nl,
      nl,
      ''### **1.Summary**'',
      nl,
      ''*(1.Provide a 1-4 sentence overview of the document'' @ [CHR 0x27] @ ''s core purpose with key details and risks,'',
      nl,
      ''* **Potential Risks: In1-3 sentence** *(Identify clauses on payment, penalties, Identify clauses on indemnification)*'',
      nl,
      ''* **General Advice:** *(e.g., "Consult a lawyer practicing in India.")*'',
      nl,
      nl,
      ''### **2. Key Details at a Glance**'',
      nl,
      ''| Detail | Information Found (with Clause Reference) |'',
      nl,
      ''| :--- | :--- |'',
      nl,
      ''| **Governing Law** | *(e.g., Laws of India, Jurisdiction in Delhi (Clause 15.1))* |'',
      nl,
      ''| **Contract Term** | *(e.g., 24 months from effective date (Section 3))* |'',
      nl,
      ''| **Payment Amount**| *(e.g., '' @ [CHR 0xE2, CHR 0x82, CHR 0xB9] @ ''50,000 INR per month (Annexure A))* |'',
      nl,
      ''| **Notice Period** | *(e.g., 60 days for termination (Clause 12.2))* |'',
      nl,
      nl,
      ''### **3. Key Parties & Their Roles**'',
      nl,
      ''* **Party A:** *(Identify the party and their role.)*'',
      nl,
      ''* **Party B:** *(Identify the other party and their role.)*'',
      nl,
      nl,
      ''### **4. Key Clauses & Their Implications (under Indian Law)**'',
      nl,
      ''* **[Clause Name]:** *(Explain the meaning and impact of a major clause. Cite the source.)*'',
      nl,
      nl,
      ''### **5. Potential Risks & Red Flags '' @ [CHR 0xF0, CHR 0x9F, CHR 0x9A, CHR 0xA9] @ '' (Indian Context)**'',
      nl,
      ''* **Financial Risk:** *(Identify clauses on payment, penalties. Cite the source.)*'',
      nl,
      ''* **Legal/Liability Risk:** *(Identify clauses on indemnification, liability. Cite the source.)*'',
      nl,
      nl,
      ''### **6. Dispute Resolution (Arbitration / Court Jurisdiction)**'',
      nl,
      ''* *(Explain how disputes are resolved. Cite Indian law, e.g., Arbitration & Conciliation Act, 1996.)*'',
      nl,
      nl,
      ''### **7. Confidentiality & Intellectual Property**'',
      nl,
      ''* *(Highlight clauses on confidentiality and IP ownership. Note who owns the IP.)*'',
      nl,
      nl,
      ''### **8. Compliance & Regulatory Requirements (Indian Laws)**'',
      nl,
      ''* *(Note compliance obligations with Indian laws like the Companies Act, 2013; Labour Laws; or the DPDP Act, 2023, if applicable.)*'',
      nl,
      nl,
      ''### **9. Actionable Next Steps (Prioritized)**'',
      nl,
      ''1.  **Immediate Action:** *(Suggest the most critical next step.)*'',
      nl,
      ''2.  **Recommendation:** *(Suggest an important action.)*'',
      nl,
      ''3.  **General Advice:** *(e.g., "Consult a lawyer practicing in India.")*'',
      nl]\<close>

definition qa_prompt_head :: string where
  \<open>qa_prompt_head = concat
     [nl,
      ''**Context:** You are an AI assistant answering questions about the following legal document. Your answers must be based *only* on the information contained within this document. If the answer is not in the document, say so.'',
      nl,
      ''**Document Text:**'',
      nl,
      ''---'',
      nl]\<close>

definition qa_prompt_middle :: string where
  \<open>qa_prompt_middle = concat
     [nl,
      ''---'',
      nl,
      ''**User'' @ [CHR 0x27] @ ''s Question:** "'']\<close>

definition qa_prompt_tail :: string where
  \<open>qa_prompt_tail = concat
     [''"'',
      nl,
      ''**Your Answer:**'',
      nl]\<close>

definition build_analysis_prompt :: "string \<Rightarrow> string \<Rightarrow> string" where
  "build_analysis_prompt document_text user_prompt =
     analysis_prompt_head @ user_prompt @ analysis_prompt_middle @ document_text
       @ analysis_prompt_tail"

definition build_qa_prompt :: "string \<Rightarrow> string \<Rightarrow> string" where
  "build_qa_prompt document_text question =
     qa_prompt_head @ document_text @ qa_prompt_middle @ question @ qa_prompt_tail"

section \<open>The database\<close>

text \<open>
  The two tables, each a list of rows in insertion order. The primary key of a new row
  is the successor of the largest key in the table (SQLite's rule for an integer primary
  key), 1 in an empty table.
\<close>

record document =
  doc_id :: nat
  filename :: string
  upload_date :: datetime
  status :: string
  summary :: "string option"
  full_text :: "string option"
  model_used :: "string option"

record history_event =
  event_id :: nat
  event_type :: string
  document_name :: string
  timestamp :: datetime

record db =
  documents :: "document list"
  history_events :: "history_event list"

definition next_id :: "nat list \<Rightarrow> nat" where
  "next_id ids = Suc (fold max ids 0)"

definition add_document :: "document \<Rightarrow> db \<Rightarrow> db" where
  "add_document d s = s\<lparr>documents := documents s @ [d]\<rparr>"

definition update_document :: "nat \<Rightarrow> (document \<Rightarrow> document) \<Rightarrow> db \<Rightarrow> db" where
  "update_document i f s =
     s\<lparr>documents := map (\<lambda>d. if doc_id d = i then f d else d) (documents s)\<rparr>"

definition delete_row :: "nat \<Rightarrow> db \<Rightarrow> db" where
  "delete_row i s = s\<lparr>documents := filter (\<lambda>d. doc_id d \<noteq> i) (documents s)\<rparr>"

text \<open>\<open>log_event\<close>, with the clock reading that the new row's \<open>timestamp\<close> takes.\<close>

definition log_event :: "datetime \<Rightarrow> string \<Rightarrow> string \<Rightarrow> db \<Rightarrow> db" where
  "log_event now ty name s =
     s\<lparr>history_events := history_events s @
        [\<lparr>event_id = next_id (map event_id (history_events s)), event_type = ty,
          document_name = name, timestamp = now\<rparr>]\<rparr>"

subsection \<open>Serialisation\<close>

definition digit :: "nat \<Rightarrow> char" where
  "digit n = ''0123456789'' ! n"

function str_nat :: "nat \<Rightarrow> string" where
  "str_nat n = (if n < 10 then [digit n] else str_nat (n div 10) @ [digit (n mod 10)])"
  by pat_completeness auto
termination
  by (relation "measure id") auto

declare str_nat.simps [simp del]

definition pad2 :: "nat \<Rightarrow> string" where
  "pad2 n = (if n < 10 then CHR ''0'' # str_nat n else str_nat n)"

text \<open>\<open>%b\<close> in the C locale; a \<open>datetime\<close> has its month between 1 and 12.\<close>

definition month_abbr :: "nat \<Rightarrow> string" where
  "month_abbr m =
     (if 1 \<le> m \<and> m \<le> 12
      then [''Jan'', ''Feb'', ''Mar'', ''Apr'', ''May'', ''Jun'',
            ''Jul'', ''Aug'', ''Sep'', ''Oct'', ''Nov'', ''Dec''] ! (m - 1)
      else [])"

text \<open>\<open>strftime('%b %d, %Y')\<close>\<close>

definition strftime_date :: "datetime \<Rightarrow> string" where
  "strftime_date t = month_abbr (month t) @ '' '' @ pad2 (day t) @ '', '' @ str_nat (year t)"

text \<open>\<open>strftime('%b %d, %Y, %I:%M %p')\<close>\<close>

definition strftime_date_time :: "datetime \<Rightarrow> string" where
  "strftime_date_time t =
     strftime_date t @ '', ''
       @ pad2 (if hour t mod 12 = 0 then 12 else hour t mod 12) @ '':'' @ pad2 (minute t)
       @ '' '' @ (if hour t < 12 then ''AM'' else ''PM'')"

definition json_opt :: "string option \<Rightarrow> json" where
  "json_opt v = (case v of None \<Rightarrow> JNull | Some s \<Rightarrow> JStr s)"

definition document_to_dict :: "document \<Rightarrow> json" where
  "document_to_dict d =
     JObj [(''id'', JInt (int (doc_id d))),
           (''filename'', JStr (filename d)),
           (''upload_date'', JStr (strftime_date (upload_date d))),
           (''status'', JStr (status d)),
           (''summary'', json_opt (summary d)),
           (''full_text'', json_opt (full_text d)),
           (''model_used'', json_opt (model_used d))]"

definition event_to_dict :: "history_event \<Rightarrow> json" where
  "event_to_dict e =
     JObj [(''id'', JInt (int (event_id e))),
           (''event_type'', JStr (event_type e)),
           (''document_name'', JStr (document_name e)),
           (''timestamp'', JStr (strftime_date_time (timestamp e)))]"

subsection \<open>\<open>ORDER BY ... DESC\<close>\<close>

text \<open>
  Datetimes are compared field by field, from the year down. The query returns every
  row, the later ones first; among rows of equal key SQL fixes no order, and this
  function keeps them in table order.
\<close>

definition dt_key :: "datetime \<Rightarrow> nat \<times> nat \<times> nat \<times> nat \<times> nat \<times> nat \<times> nat" where
  "dt_key t = (year t, month t, day t, hour t, minute t, second t, microsecond t)"

fun insort_desc :: "('a \<Rightarrow> 'k::linorder) \<Rightarrow> 'a \<Rightarrow> 'a list \<Rightarrow> 'a list" where
  "insort_desc f x [] = [x]"
| "insort_desc f x (y # ys) =
     (if f y < f x then x # y # ys else y # insort_desc f x ys)"

definition order_by_desc :: "('a \<Rightarrow> 'k::linorder) \<Rightarrow> 'a list \<Rightarrow> 'a list" where
  "order_by_desc f xs = foldr (insort_desc f) (rev xs) []"

section \<open>The routes\<close>

text \<open>
  What a view function ends in: a response built by \<open>jsonify\<close> with its status code
  (200 when the view gives none), an HTTP error raised by the framework
  (\<open>get_or_404\<close>), or an exception that no handler of the view catches, which the
  framework answers with status 500.
\<close>

datatype outcome =
    Response json nat
  | Abort nat
  | Unhandled exn

fun http_status :: "outcome \<Rightarrow> nat" where
  "http_status (Response body code) = code"
| "http_status (Abort code) = code"
| "http_status (Unhandled e) = 500"

definition error_body :: "string \<Rightarrow> json" where
  "error_body msg = JObj [(''error'', JStr msg)]"

text \<open>
  A view takes the database as the request finds it and returns its outcome with the
  list of the states it committed, in order; the last of them is the state it leaves.
\<close>

definition final_db :: "db \<Rightarrow> db list \<Rightarrow> db" where
  "final_db s commits = last (s # commits)"

record file_storage =
  fs_filename :: string
  stream :: bytes

record simplify_request =
  files :: "string \<rightharpoonup> file_storage"
  form :: "string \<rightharpoonup> string"

text \<open>\<open>request.form.get(key, default)\<close>\<close>

definition form_get :: "simplify_request \<Rightarrow> string \<Rightarrow> string \<Rightarrow> string" where
  "form_get req key dflt = (case form req key of None \<Rightarrow> dflt | Some v \<Rightarrow> v)"

subsection \<open>\<open>/simplify\<close>\<close>

text \<open>
  The branch taken when the text is missing: the failed document is committed, then
  the event.
\<close>

definition extraction_failed ::
    "world \<Rightarrow> string \<Rightarrow> string \<Rightarrow> db \<Rightarrow> outcome \<times> db list" where
  "extraction_failed w name selected_model_name db1 =
     (let failed_doc =
            \<lparr>doc_id = next_id (map doc_id (documents db1)), filename = name,
             upload_date = utcnow w 1, status = ''Analysis Failed'',
             summary = Some ''Could not extract text from PDF.'', full_text = None,
             model_used = Some selected_model_name\<rparr>;
          db2 = add_document failed_doc db1;
          db3 = log_event (utcnow w 2) ''TEXT_EXTRACT_FAIL'' name db2
      in (Response (error_body ''Could not extract text from the PDF.'') 400,
          [db1, db2, db3]))"

text \<open>
  The first two statements of the \<open>try\<close> block: the model handle, then the
  generation call and the text of its response. Either may raise.
\<close>

definition generated_text :: "world \<Rightarrow> string \<Rightarrow> string \<Rightarrow> exn + string" where
  "generated_text w selected_model_name full_prompt =
     (case get_gemini_model w (JStr selected_model_name) of
        Inl e \<Rightarrow> Inl e
      | Inr model_instance \<Rightarrow> generate_content w model_instance full_prompt)"

text \<open>
  The rest of the view. The status and the summary are set on the row before
  \<open>log_event\<close> commits, so the event and the updated row are committed together.
\<close>

definition analyse ::
    "world \<Rightarrow> simplify_request \<Rightarrow> string \<Rightarrow> string \<Rightarrow> string \<Rightarrow> db
       \<Rightarrow> outcome \<times> db list" where
  "analyse w req name selected_model_name document_text db1 =
     (let new_id = next_id (map doc_id (documents db1));
          new_doc =
            \<lparr>doc_id = new_id, filename = name,
             upload_date = utcnow w 1, status = ''In Progress'',
             summary = None, full_text = Some document_text,
             model_used = Some selected_model_name\<rparr>;
          db2 = add_document new_doc db1;
          prompt_from_user = form_get req ''prompt'' ''Provide a comprehensive analysis.'';
          full_prompt = build_analysis_prompt document_text prompt_from_user;
          generated = generated_text w selected_model_name full_prompt
      in case generated of
           Inr text \<Rightarrow>
             (let db3 = log_event (utcnow w 2) ''ANALYSIS_SUCCESS'' name
                          (update_document new_id
                             (\<lambda>d. d\<lparr>summary := Some text, status := ''Analyzed''\<rparr>) db2)
              in (Response (JObj [(''summary'', JStr text),
                                  (''document_text'', JStr document_text)]) 200,
                  [db1, db2, db3]))
         | Inl (ValueError m) \<Rightarrow>
             (let db3 = log_event (utcnow w 2) ''ANALYSIS_FAIL'' name
                          (update_document new_id
                             (\<lambda>d. d\<lparr>status := ''Analysis Failed'',
                                    summary := Some (''API Error: '' @ m)\<rparr>) db2)
              in (Response (error_body (''AI model configuration error: '' @ m)) 500,
                  [db1, db2, db3]))
         | Inl e \<Rightarrow>
             (let db3 = log_event (utcnow w 2) ''ANALYSIS_FAIL'' name
                          (update_document new_id
                             (\<lambda>d. d\<lparr>status := ''Analysis Failed'',
                                    summary := Some (''Analysis failed: '' @ str_exn e)\<rparr>) db2)
              in (Response (error_body
                    ''Failed to get a response from the AI model. Check server logs for details.'')
                    500,
                  [db1, db2, db3])))"

definition simplify_document ::
    "world \<Rightarrow> simplify_request \<Rightarrow> db \<Rightarrow> outcome \<times> db list" where
  "simplify_document w req db0 =
     (case files req ''pdfFile'' of
        None \<Rightarrow> (Response (error_body ''No PDF file provided.'') 400, [])
      | Some pdf_file \<Rightarrow>
          if fs_filename pdf_file = []
          then (Response (error_body ''No selected file.'') 400, [])
          else
            let selected_model_name = form_get req ''model'' ''gemini-1.5-flash'';
                db1 = log_event (utcnow w 0) ''UPLOAD_SUCCESS'' (fs_filename pdf_file) db0
            in (case extract_text_from_pdf w (stream pdf_file) of
                  None \<Rightarrow>
                    extraction_failed w (fs_filename pdf_file) selected_model_name db1
                | Some document_text \<Rightarrow>
                    (if document_text = [] \<or> py_strip document_text = []
                     then extraction_failed w (fs_filename pdf_file) selected_model_name db1
                     else analyse w req (fs_filename pdf_file) selected_model_name
                            document_text db1)))"

subsection \<open>\<open>/ask\<close>\<close>

text \<open>
  \<open>data[key]\<close>. The view reaches it once \<open>key in data\<close> and \<open>data.get\<close> have
  succeeded, so on a dict that has the key; the other cases raise.
\<close>

fun py_getitem :: "json \<Rightarrow> string \<Rightarrow> exn + json" where
  "py_getitem (JObj kvs) k =
     (case map_of kvs k of None \<Rightarrow> Inl (OtherException (quoted k)) | Some v \<Rightarrow> Inr v)"
| "py_getitem v k = Inl (TypeError ''object is not subscriptable with a string'')"

definition missing_fields :: outcome where
  "missing_fields = Response (error_body ''Missing document_text or question in request.'') 400"

text \<open>
  The statements of the \<open>try\<close> block up to the reply: the model handle, the chat seeded
  with the document, the question sent and the text of the response. Any of them may
  raise.
\<close>

definition chat_reply :: "world \<Rightarrow> json \<Rightarrow> json \<Rightarrow> json \<Rightarrow> exn + string" where
  "chat_reply w selected_model_name document_text question =
     (case get_gemini_model w selected_model_name of
        Inl e \<Rightarrow> Inl e
      | Inr model_instance \<Rightarrow>
          send_message w model_instance
            (''Here is the legal document for context:'' @ nl @ nl
               @ format_value w document_text)
            (build_qa_prompt (format_value w document_text) (format_value w question)))"

definition answer :: "world \<Rightarrow> json \<Rightarrow> json \<Rightarrow> json \<Rightarrow> outcome" where
  "answer w selected_model_name document_text question =
     (case chat_reply w selected_model_name document_text question of
        Inr text \<Rightarrow> Response (JObj [(''answer'', JStr text)]) 200
      | Inl (ValueError m) \<Rightarrow>
          Response (error_body (''AI model configuration error for chat: '' @ m)) 500
      | Inl e \<Rightarrow>
          Response (error_body
            ''Failed to get a response for your question. Check server logs for details.'')
            500)"

definition ask_question :: "world \<Rightarrow> json \<Rightarrow> db \<Rightarrow> outcome \<times> db list" where
  "ask_question w data db0 =
     (if \<not> truthy data then (missing_fields, [])
      else
        (case py_in ''document_text'' data of
           Inl e \<Rightarrow> (Unhandled e, [])
         | Inr has_text \<Rightarrow>
             (if \<not> has_text then (missing_fields, [])
              else
                (case py_in ''question'' data of
                   Inl e \<Rightarrow> (Unhandled e, [])
                 | Inr has_question \<Rightarrow>
                     (if \<not> has_question then (missing_fields, [])
                      else
                        (case py_get data ''model'' (JStr ''gemini-1.5-flash'') of
                           Inl e \<Rightarrow> (Unhandled e, [])
                         | Inr selected_model_name \<Rightarrow>
                             (case py_getitem data ''document_text'' of
                                Inl e \<Rightarrow> (Unhandled e, [])
                              | Inr document_text \<Rightarrow>
                                  (case py_getitem data ''question'' of
                                     Inl e \<Rightarrow> (Unhandled e, [])
                                   | Inr question \<Rightarrow>
                                       (answer w selected_model_name document_text question,
                                        [])))))))))"

subsection \<open>\<open>/documents\<close>, \<open>/history\<close> and \<open>/document/<id>\<close>\<close>

text \<open>
  The two queries, \<open>Document.query.order_by(Document.upload_date.desc()).all()\<close> and
  \<open>HistoryEvent.query.order_by(HistoryEvent.timestamp.desc()).all()\<close>.
\<close>

definition documents_newest_first :: "db \<Rightarrow> document list" where
  "documents_newest_first s = order_by_desc (\<lambda>d. dt_key (upload_date d)) (documents s)"

definition events_newest_first :: "db \<Rightarrow> history_event list" where
  "events_newest_first s = order_by_desc (\<lambda>e. dt_key (timestamp e)) (history_events s)"

definition get_documents :: "db \<Rightarrow> outcome \<times> db list" where
  "get_documents db0 =
     (Response (JArr (map document_to_dict (documents_newest_first db0))) 200, [])"

definition get_history :: "db \<Rightarrow> outcome \<times> db list" where
  "get_history db0 =
     (Response (JArr (map event_to_dict (events_newest_first db0))) 200, [])"

text \<open>
  The route takes any run of digits as the id. The query of \<open>get_or_404\<close> binds it as
  an SQLite integer, which is a signed 64-bit number: on a larger id the binding raises
  \<open>OverflowError\<close>, and the view has no handler for it.
\<close>

definition sqlite_max_integer :: nat where
  "sqlite_max_integer = 9223372036854775807"

definition delete_document :: "world \<Rightarrow> nat \<Rightarrow> db \<Rightarrow> outcome \<times> db list" where
  "delete_document w i db0 =
     (if sqlite_max_integer < i
      then (Unhandled (OverflowError ''Python int too large to convert to SQLite INTEGER''), [])
      else
        (case find (\<lambda>d. doc_id d = i) (documents db0) of
           None \<Rightarrow> (Abort 404, [])
         | Some doc \<Rightarrow>
             (let db1 = delete_row i db0;
                  db2 = log_event (utcnow w 0) ''DELETE_DOCUMENT'' (filename doc) db1
              in (Response (JObj [(''message'', JStr ''Document deleted successfully.'')]) 200,
                  [db1, db2]))))"

text \<open>Lists of timestamps, latest first: each at least, or each more than, all that follow.\<close>

definition descending :: "datetime list \<Rightarrow> bool" where
  "descending ts = sorted_wrt (\<lambda>a b. dt_key b \<le> dt_key a) ts"

definition strictly_descending :: "datetime list \<Rightarrow> bool" where
  "strictly_descending ts = sorted_wrt (\<lambda>a b. dt_key b < dt_key a) ts"

section \<open>Sequences of requests\<close>

text \<open>
  The server handles one request at a time (\<open>threaded=False\<close>). A call is a request
  together with the world it finds; \<open>run\<close> lists every state committed while a
  sequence of calls is served.
\<close>

datatype call =
    Simplify world simplify_request
  | Ask world json
  | Documents
  | History
  | Delete world nat

fun handle :: "call \<Rightarrow> db \<Rightarrow> outcome \<times> db list" where
  "handle (Simplify w req) s = simplify_document w req s"
| "handle (Ask w data) s = ask_question w data s"
| "handle Documents s = get_documents s"
| "handle History s = get_history s"
| "handle (Delete w i) s = delete_document w i s"

fun run :: "call list \<Rightarrow> db \<Rightarrow> db list" where
  "run [] s = []"
| "run (c # cs) s = snd (handle c s) @ run cs (final_db s (snd (handle c s)))"

text \<open>The tables as \<open>db.create_all()\<close> creates them.\<close>

definition empty_db :: db where
  "empty_db = \<lparr>documents = [], history_events = []\<rparr>"

subsection \<open>Statuses and their transitions\<close>

definition valid_statuses :: "string list" where
  "valid_statuses = [''Pending'', ''In Progress'', ''Analyzed'', ''Analysis Failed'']"

text \<open>A well-formed table: primary keys are unique, and every status is one of the four.\<close>

definition db_ok :: "db \<Rightarrow> bool" where
  "db_ok s \<longleftrightarrow>
     distinct (map doc_id (documents s)) \<and>
     (\<forall>d \<in> set (documents s). status d \<in> set valid_statuses)"

definition status_in :: "db \<Rightarrow> nat \<Rightarrow> string option" where
  "status_in s i = map_option status (find (\<lambda>d. doc_id d = i) (documents s))"

text \<open>
  The status transitions between a committed state and the next one: the rows of the
  later state whose status is not the one the earlier state has under the same key,
  each with its earlier status (\<open>None\<close> for a row that is new).
\<close>

definition transitions :: "db \<Rightarrow> db \<Rightarrow> (document \<times> string option) list" where
  "transitions s s' =
     map (\<lambda>d. (d, status_in s (doc_id d)))
       (filter (\<lambda>d. status_in s (doc_id d) \<noteq> Some (status d)) (documents s'))"

fun request_transitions :: "db \<Rightarrow> db list \<Rightarrow> (document \<times> string option) list" where
  "request_transitions s [] = []"
| "request_transitions s (s' # commits) = transitions s s' @ request_transitions s' commits"

text \<open>The events that a request appended.\<close>

definition logged :: "db \<Rightarrow> db list \<Rightarrow> history_event list" where
  "logged s commits =
     drop (length (history_events s)) (history_events (final_db s commits))"

text \<open>
  The event type that records a transition: a document created in progress is the
  upload, a document created as failed is the failed extraction, and leaving
  \<open>In Progress\<close> is the end of the analysis.
\<close>

definition transition_event :: "string option \<Rightarrow> string \<Rightarrow> string option" where
  "transition_event prior new =
     (if prior = None \<and> new = ''In Progress'' then Some ''UPLOAD_SUCCESS''
      else if prior = None \<and> new = ''Analysis Failed'' then Some ''TEXT_EXTRACT_FAIL''
      else if prior = Some ''In Progress'' \<and> new = ''Analyzed'' then Some ''ANALYSIS_SUCCESS''
      else if prior = Some ''In Progress'' \<and> new = ''Analysis Failed'' then Some ''ANALYSIS_FAIL''
      else None)"

definition events_of :: "string \<Rightarrow> string \<Rightarrow> history_event list \<Rightarrow> history_event list" where
  "events_of ty name es = filter (\<lambda>e. event_type e = ty \<and> document_name e = name) es"

subsection \<open>Sample inputs\<close>

definition sample_time :: "nat \<Rightarrow> datetime" where
  "sample_time k =
     \<lparr>year = 2026, month = 11, day = 3, hour = 10, minute = 30, second = k, microsecond = 0\<rparr>"

text \<open>
  A world with a credential, a two-page PDF whose second page has no text, and a model
  that answers.
\<close>

definition sample_world :: world where
  "sample_world =
     \<lparr>getenv_GOOGLE_API_KEY = Some ''secret'',
      generative_model = (\<lambda>name. None),
      generate_content = (\<lambda>name prompt. Inr ''A lease between A and B.''),
      send_message = (\<lambda>name context prompt. Inr ''Sixty days.''),
      pdf_reader = (\<lambda>file_stream. Inr [Inr ''Lease agreement'', Inr []]),
      utcnow = sample_time,
      py_str = (\<lambda>v. ''None''),
      py_print = (\<lambda>text. None)\<rparr>"

text \<open>The same world with a scanned PDF: one page, no text on it.\<close>

definition scanned_world :: world where
  "scanned_world = sample_world\<lparr>pdf_reader := (\<lambda>file_stream. Inr [Inr []])\<rparr>"

text \<open>
  The same world with a PDF whose pages hold only whitespace: a space and a line feed on
  the first, a no-break space and an ideographic space on the second.
\<close>

definition whitespace_world :: world where
  "whitespace_world =
     sample_world\<lparr>pdf_reader := (\<lambda>file_stream.
        Inr [Inr [CHR 0x20, CHR 0x0A], Inr [CHR 0xC2, CHR 0xA0, CHR 0xE3, CHR 0x80, CHR 0x80]])\<rparr>"

text \<open>The same world without the credential.\<close>

definition keyless_world :: world where
  "keyless_world = sample_world\<lparr>getenv_GOOGLE_API_KEY := None\<rparr>"

text \<open>The same world with a generation call and a chat that time out.\<close>

definition failing_world :: world where
  "failing_world =
     sample_world\<lparr>generate_content := (\<lambda>name prompt. Inl (OtherException ''timed out'')),
       send_message := (\<lambda>name context prompt. Inl (OtherException ''timed out''))\<rparr>"

definition sample_file :: file_storage where
  "sample_file = \<lparr>fs_filename = ''lease.pdf'', stream = [0x25, 0x50, 0x44, 0x46]\<rparr>"

definition sample_request :: simplify_request where
  "sample_request =
     \<lparr>files = [''pdfFile'' \<mapsto> sample_file], form = [''model'' \<mapsto> ''gpt-4'']\<rparr>"

definition sample_question :: json where
  "sample_question =
     JObj [(''document_text'', JStr ''Lease agreement''),
           (''question'', JStr ''What is the notice period?'')]"

text \<open>
  The test \<open>not document_text or not document_text.strip()\<close> on what the extractor
  returned.
\<close>

definition not_extractable :: "string option \<Rightarrow> bool" where
  "not_extractable r = (case r of None \<Rightarrow> True | Some t \<Rightarrow> t = [] \<or> py_strip t = [])"

text \<open>
  The code point U+D800, a lone surrogate, which a JSON string may hold as an escape;
  and the same world with a standard output in UTF-8, which cannot encode it.
\<close>

definition lone_surrogate :: string where
  "lone_surrogate = [CHR 0xED, CHR 0xA0, CHR 0x80]"

definition utf8_stdout_world :: world where
  "utf8_stdout_world =
     sample_world\<lparr>py_print := (\<lambda>text.
        if sublist lone_surrogate text
        then Some (ValueError ''surrogates not allowed'')
        else None)\<rparr>"

definition surrogate_question :: json where
  "surrogate_question =
     JObj [(''document_text'', JStr ''Lease agreement''),
           (''question'', JStr ''What is the notice period?''),
           (''model'', JStr lone_surrogate)]"

definition flash_question :: json where
  "flash_question =
     JObj [(''document_text'', JStr ''Lease agreement''),
           (''question'', JStr ''What is the notice period?''),
           (''model'', JStr ''gemini-1.5-flash'')]"

text \<open>A database after two uploads, the second of a scanned PDF.\<close>

definition sample_db :: db where
  "sample_db =
     \<lparr>documents =
        [\<lparr>doc_id = 1, filename = ''lease.pdf'', upload_date = sample_time 1,
          status = ''Analyzed'', summary = Some ''A lease between A and B.'',
          full_text = Some ''Lease agreement'', model_used = Some ''gpt-4''\<rparr>,
         \<lparr>doc_id = 2, filename = ''scan.pdf'', upload_date = sample_time 4,
          status = ''Analysis Failed'', summary = Some ''Could not extract text from PDF.'',
          full_text = None, model_used = Some ''gemini-1.5-pro''\<rparr>],
      history_events =
        [\<lparr>event_id = 1, event_type = ''UPLOAD_SUCCESS'', document_name = ''lease.pdf'',
          timestamp = sample_time 0\<rparr>,
         \<lparr>event_id = 2, event_type = ''ANALYSIS_SUCCESS'', document_name = ''lease.pdf'',
          timestamp = sample_time 2\<rparr>,
         \<lparr>event_id = 3, event_type = ''UPLOAD_SUCCESS'', document_name = ''scan.pdf'',
          timestamp = sample_time 3\<rparr>,
         \<lparr>event_id = 4, event_type = ''TEXT_EXTRACT_FAIL'', document_name = ''scan.pdf'',
          timestamp = sample_time 5\<rparr>]\<rparr>"

text \<open>A database whose two documents, and whose two events, were inserted at the same
  reading of the clock.\<close>

definition tie_db :: db where
  "tie_db =
     \<lparr>documents =
        [\<lparr>doc_id = 1, filename = ''lease.pdf'', upload_date = sample_time 1,
          status = ''Analyzed'', summary = Some ''A lease between A and B.'',
          full_text = Some ''Lease agreement'', model_used = Some ''gpt-4''\<rparr>,
         \<lparr>doc_id = 2, filename = ''scan.pdf'', upload_date = sample_time 1,
          status = ''Analysis Failed'', summary = Some ''Could not extract text from PDF.'',
          full_text = None, model_used = Some ''gemini-1.5-pro''\<rparr>],
      history_events =
        [\<lparr>event_id = 1, event_type = ''UPLOAD_SUCCESS'', document_name = ''lease.pdf'',
          timestamp = sample_time 0\<rparr>,
         \<lparr>event_id = 2, event_type = ''UPLOAD_SUCCESS'', document_name = ''scan.pdf'',
          timestamp = sample_time 0\<rparr>]\<rparr>"

section \<open>Basic facts\<close>

subsection \<open>Primary keys and table updates\<close>

lemma fold_max_ge_init: "a \<le> fold max ids (a::nat)"
proof (induction ids arbitrary: a)
  case Nil
  show ?case by simp
next
  case (Cons i ids)
  have "a \<le> max i a" by simp
  also have "\<dots> \<le> fold max ids (max i a)" by (rule Cons.IH)
  finally show ?case by simp
qed

lemma fold_max_ge_elem: "i \<in> set ids \<Longrightarrow> i \<le> fold max ids (a::nat)"
proof (induction ids arbitrary: a)
  case Nil
  then show ?case by simp
next
  case (Cons j ids)
  show ?case
  proof (cases "i = j")
    case True
    have "j \<le> max j a" by simp
    also have "\<dots> \<le> fold max ids (max j a)" by (rule fold_max_ge_init)
    finally show ?thesis using True by simp
  next
    case False
    with Cons.prems have "i \<in> set ids" by simp
    then show ?thesis using Cons.IH by simp
  qed
qed

lemma next_id_greater: "i \<in> set ids \<Longrightarrow> i < next_id ids"
  using fold_max_ge_elem [of i ids 0] by (simp add: next_id_def)

lemma next_id_fresh: "next_id ids \<notin> set ids"
  using next_id_greater [of "next_id ids" ids] by auto

lemma next_id_snoc: "next_id (ids @ [next_id ids]) = Suc (next_id ids)"
  by (simp add: next_id_def)

lemma next_id_doc_fresh: "d \<in> set ds \<Longrightarrow> doc_id d \<noteq> next_id (map doc_id ds)"
proof
  assume "d \<in> set ds" and "doc_id d = next_id (map doc_id ds)"
  then have "next_id (map doc_id ds) \<in> set (map doc_id ds)" by force
  then show False using next_id_fresh by blast
qed

lemma update_other_rows:
  "\<forall>d \<in> set ds. doc_id d \<noteq> i \<Longrightarrow> map (\<lambda>d. if doc_id d = i then f d else d) ds = ds"
  by (induction ds) auto

lemma documents_log_event [simp]: "documents (log_event now ty name s) = documents s"
  by (simp add: log_event_def)

lemma history_events_log_event:
  "history_events (log_event now ty name s) =
     history_events s @
       [\<lparr>event_id = next_id (map event_id (history_events s)), event_type = ty,
         document_name = name, timestamp = now\<rparr>]"
  by (simp add: log_event_def)

lemma history_events_add_document [simp]: "history_events (add_document d s) = history_events s"
  by (simp add: add_document_def)

lemma documents_add_document [simp]: "documents (add_document d s) = documents s @ [d]"
  by (simp add: add_document_def)

lemma history_events_update_document [simp]:
  "history_events (update_document i f s) = history_events s"
  by (simp add: update_document_def)

lemma documents_update_new:
  "documents (update_document (next_id (map doc_id (documents s))) f (add_document d s)) =
     documents s @ [if doc_id d = next_id (map doc_id (documents s)) then f d else d]"
  using next_id_doc_fresh [of _ "documents s"]
  by (simp add: update_document_def update_other_rows)

lemma final_db_simps [simp]:
  "final_db s [] = s" "final_db s [a] = a" "final_db s [a, b] = b" "final_db s [a, b, c] = c"
  by (simp_all add: final_db_def)

lemma strip_prefixes_Nil: "strip_prefixes ws [] = []"
proof -
  have "find (\<lambda>w. w \<noteq> [] \<and> prefix w []) ws = None"
    by (simp add: find_None_iff)
  then show ?thesis by (simp add: strip_prefixes.simps)
qed

lemma py_strip_Nil: "py_strip [] = []"
  by (simp add: py_strip_def lstrip_def rstrip_def strip_prefixes_Nil)

lemma simplify_document_failed:
  assumes "files req ''pdfFile'' = Some pdf_file" and "fs_filename pdf_file \<noteq> []"
    and "not_extractable (extract_text_from_pdf w (stream pdf_file))"
  shows "simplify_document w req s =
     extraction_failed w (fs_filename pdf_file) (form_get req ''model'' ''gemini-1.5-flash'')
       (log_event (utcnow w 0) ''UPLOAD_SUCCESS'' (fs_filename pdf_file) s)"
  using assms by (simp add: simplify_document_def not_extractable_def split: option.splits)

lemma simplify_document_analyse:
  assumes "files req ''pdfFile'' = Some pdf_file" and "fs_filename pdf_file \<noteq> []"
    and "extract_text_from_pdf w (stream pdf_file) = Some t" and "py_strip t \<noteq> []"
  shows "simplify_document w req s =
     analyse w req (fs_filename pdf_file) (form_get req ''model'' ''gemini-1.5-flash'') t
       (log_event (utcnow w 0) ''UPLOAD_SUCCESS'' (fs_filename pdf_file) s)"
proof -
  from assms(4) have "t \<noteq> []" using py_strip_Nil by auto
  with assms show ?thesis by (simp add: simplify_document_def)
qed

subsection \<open>The sample inputs\<close>

lemma sample_hyps:
  "files sample_request ''pdfFile'' = Some sample_file"
  "fs_filename sample_file \<noteq> []"
  "extract_text_from_pdf sample_world (stream sample_file) = Some ''Lease agreement''"
  "form_get sample_request ''model'' ''gemini-1.5-flash'' = ''gpt-4''"
  "get_gemini_model sample_world (JStr ''gpt-4'') = Inr ''gemini-1.5-flash''"
  by (simp_all add: sample_request_def sample_file_def sample_world_def
      extract_text_from_pdf_def form_get_def get_gemini_model_def api_key_present_def
      validated_model_name_def allowed_models_def)

lemma py_strip_sample: "py_strip ''Lease agreement'' \<noteq> []"
  by code_simp

section \<open>\<open>/simplify\<close>: a successful analysis\<close>

lemma analyse_success:
  assumes "get_gemini_model w (JStr sel) = Inr m"
    and "generate_content w m
           (build_analysis_prompt t (form_get req ''prompt'' ''Provide a comprehensive analysis.''))
         = Inr text"
  shows "fst (analyse w req name sel t db1) =
           Response (JObj [(''summary'', JStr text), (''document_text'', JStr t)]) 200"
    and "documents (final_db s (snd (analyse w req name sel t db1))) =
           documents db1 @
             [\<lparr>doc_id = next_id (map doc_id (documents db1)), filename = name,
               upload_date = utcnow w 1, status = ''Analyzed'', summary = Some text,
               full_text = Some t, model_used = Some sel\<rparr>]"
    and "history_events (final_db s (snd (analyse w req name sel t db1))) =
           history_events db1 @
             [\<lparr>event_id = next_id (map event_id (history_events db1)),
               event_type = ''ANALYSIS_SUCCESS'', document_name = name,
               timestamp = utcnow w 2\<rparr>]"
  using assms
  by (simp_all add: analyse_def generated_text_def Let_def history_events_log_event
      documents_update_new)

text \<open>
  C1. A \<open>/simplify\<close> request that carries a named file, whose PDF yields text that
  is not empty and not only whitespace, and whose model handle and generation call
  succeed, is answered with status 200 and a body holding the generated summary and the
  extracted text. It leaves one new document, with status \<open>Analyzed\<close> and the generated
  text as its summary, and appends two events, \<open>UPLOAD_SUCCESS\<close> and then exactly one
  \<open>ANALYSIS_SUCCESS\<close>, to the history, which it otherwise keeps.
\<close>

theorem simplify_document_success:
  assumes "files req ''pdfFile'' = Some pdf_file" and "fs_filename pdf_file \<noteq> []"
    and "extract_text_from_pdf w (stream pdf_file) = Some document_text"
    and "py_strip document_text \<noteq> []"
    and "get_gemini_model w (JStr (form_get req ''model'' ''gemini-1.5-flash''))
           = Inr model_instance"
    and "generate_content w model_instance
           (build_analysis_prompt document_text
              (form_get req ''prompt'' ''Provide a comprehensive analysis.''))
         = Inr text"
  shows "fst (simplify_document w req s) =
           Response (JObj [(''summary'', JStr text), (''document_text'', JStr document_text)]) 200
       \<and> documents (final_db s (snd (simplify_document w req s))) =
           documents s @
             [\<lparr>doc_id = next_id (map doc_id (documents s)), filename = fs_filename pdf_file,
               upload_date = utcnow w 1, status = ''Analyzed'', summary = Some text,
               full_text = Some document_text,
               model_used = Some (form_get req ''model'' ''gemini-1.5-flash'')\<rparr>]
       \<and> history_events (final_db s (snd (simplify_document w req s))) =
           history_events s @ logged s (snd (simplify_document w req s))
       \<and> map (\<lambda>e. (event_type e, document_name e)) (logged s (snd (simplify_document w req s))) =
           [(''UPLOAD_SUCCESS'', fs_filename pdf_file),
            (''ANALYSIS_SUCCESS'', fs_filename pdf_file)]"
proof -
  let ?db1 = "log_event (utcnow w 0) ''UPLOAD_SUCCESS'' (fs_filename pdf_file) s"
  have run: "simplify_document w req s =
      analyse w req (fs_filename pdf_file) (form_get req ''model'' ''gemini-1.5-flash'')
        document_text ?db1"
    using assms(1-4) by (rule simplify_document_analyse)
  note res = analyse_success [OF assms(5,6), where name = "fs_filename pdf_file" and ?db1.0 = ?db1]
  have ev: "history_events (final_db s (snd (simplify_document w req s))) =
      history_events s @
        [\<lparr>event_id = next_id (map event_id (history_events s)),
          event_type = ''UPLOAD_SUCCESS'', document_name = fs_filename pdf_file,
          timestamp = utcnow w 0\<rparr>,
         \<lparr>event_id = next_id (map event_id (history_events ?db1)),
          event_type = ''ANALYSIS_SUCCESS'', document_name = fs_filename pdf_file,
          timestamp = utcnow w 2\<rparr>]"
    unfolding run res(3) by (simp add: history_events_log_event)
  have "fst (simplify_document w req s) =
      Response (JObj [(''summary'', JStr text), (''document_text'', JStr document_text)]) 200"
    unfolding run by (rule res(1))
  moreover have "documents (final_db s (snd (simplify_document w req s))) =
      documents s @
        [\<lparr>doc_id = next_id (map doc_id (documents s)), filename = fs_filename pdf_file,
          upload_date = utcnow w 1, status = ''Analyzed'', summary = Some text,
          full_text = Some document_text,
          model_used = Some (form_get req ''model'' ''gemini-1.5-flash'')\<rparr>]"
    unfolding run res(2) by simp
  moreover have "history_events (final_db s (snd (simplify_document w req s))) =
      history_events s @ logged s (snd (simplify_document w req s))"
    unfolding logged_def ev by simp
  moreover have "map (\<lambda>e. (event_type e, document_name e))
      (logged s (snd (simplify_document w req s))) =
        [(''UPLOAD_SUCCESS'', fs_filename pdf_file),
         (''ANALYSIS_SUCCESS'', fs_filename pdf_file)]"
    unfolding logged_def ev by simp
  ultimately show ?thesis by blast
qed

theorem simplify_document_success_witness:
  "fst (simplify_document sample_world sample_request empty_db) =
     Response (JObj [(''summary'', JStr ''A lease between A and B.''),
                     (''document_text'', JStr ''Lease agreement'')]) 200
   \<and> map status (documents (final_db empty_db
         (snd (simplify_document sample_world sample_request empty_db)))) = [''Analyzed'']
   \<and> map event_type (logged empty_db
         (snd (simplify_document sample_world sample_request empty_db))) =
       [''UPLOAD_SUCCESS'', ''ANALYSIS_SUCCESS'']"
proof -
  have gen: "generate_content sample_world ''gemini-1.5-flash''
      (build_analysis_prompt ''Lease agreement''
         (form_get sample_request ''prompt'' ''Provide a comprehensive analysis.''))
      = Inr ''A lease between A and B.''"
    by (simp add: sample_world_def)
  have gm: "get_gemini_model sample_world
      (JStr (form_get sample_request ''model'' ''gemini-1.5-flash'')) = Inr ''gemini-1.5-flash''"
    by (simp add: sample_hyps)
  note inst = simplify_document_success
    [OF sample_hyps(1) sample_hyps(2) sample_hyps(3) py_strip_sample gm gen, of empty_db]
  from inst have a: "fst (simplify_document sample_world sample_request empty_db) =
     Response (JObj [(''summary'', JStr ''A lease between A and B.''),
                     (''document_text'', JStr ''Lease agreement'')]) 200"
    by blast
  from inst have b: "map status (documents (final_db empty_db
         (snd (simplify_document sample_world sample_request empty_db)))) = [''Analyzed'']"
    by (simp add: empty_db_def)
  from inst have "map (\<lambda>e. (event_type e, document_name e)) (logged empty_db
         (snd (simplify_document sample_world sample_request empty_db))) =
       [(''UPLOAD_SUCCESS'', fs_filename sample_file),
        (''ANALYSIS_SUCCESS'', fs_filename sample_file)]"
    by blast
  then have "map fst (map (\<lambda>e. (event_type e, document_name e)) (logged empty_db
         (snd (simplify_document sample_world sample_request empty_db)))) =
       [''UPLOAD_SUCCESS'', ''ANALYSIS_SUCCESS'']"
    by simp
  then have c: "map event_type (logged empty_db
         (snd (simplify_document sample_world sample_request empty_db))) =
       [''UPLOAD_SUCCESS'', ''ANALYSIS_SUCCESS'']"
    by (simp add: comp_def)
  from a b c show ?thesis by blast
qed

section \<open>\<open>/simplify\<close>: no extractable text\<close>

lemma extraction_failed_result:
  "fst (extraction_failed w name sel db1) =
     Response (error_body ''Could not extract text from the PDF.'') 400"
  "documents (final_db s (snd (extraction_failed w name sel db1))) =
     documents db1 @
       [\<lparr>doc_id = next_id (map doc_id (documents db1)), filename = name,
         upload_date = utcnow w 1, status = ''Analysis Failed'',
         summary = Some ''Could not extract text from PDF.'', full_text = None,
         model_used = Some sel\<rparr>]"
  "history_events (final_db s (snd (extraction_failed w name sel db1))) =
     history_events db1 @
       [\<lparr>event_id = next_id (map event_id (history_events db1)),
         event_type = ''TEXT_EXTRACT_FAIL'', document_name = name,
         timestamp = utcnow w 2\<rparr>]"
  by (simp_all add: extraction_failed_def Let_def history_events_log_event)

text \<open>
  C2. A \<open>/simplify\<close> upload (a named file) whose PDF yields no extractable text,
  because the extraction raised or because its result is empty or only whitespace, is
  answered with status 400. It leaves one new document, with status
  \<open>Analysis Failed\<close> and the fixed summary, and appends \<open>UPLOAD_SUCCESS\<close> and then
  \<open>TEXT_EXTRACT_FAIL\<close> to the history.
\<close>

theorem simplify_document_no_text:
  assumes "files req ''pdfFile'' = Some pdf_file" and "fs_filename pdf_file \<noteq> []"
    and "not_extractable (extract_text_from_pdf w (stream pdf_file))"
  shows "fst (simplify_document w req s) =
           Response (error_body ''Could not extract text from the PDF.'') 400
       \<and> http_status (fst (simplify_document w req s)) = 400
       \<and> documents (final_db s (snd (simplify_document w req s))) =
           documents s @
             [\<lparr>doc_id = next_id (map doc_id (documents s)), filename = fs_filename pdf_file,
               upload_date = utcnow w 1, status = ''Analysis Failed'',
               summary = Some ''Could not extract text from PDF.'', full_text = None,
               model_used = Some (form_get req ''model'' ''gemini-1.5-flash'')\<rparr>]
       \<and> history_events (final_db s (snd (simplify_document w req s))) =
           history_events s @ logged s (snd (simplify_document w req s))
       \<and> map (\<lambda>e. (event_type e, document_name e)) (logged s (snd (simplify_document w req s))) =
           [(''UPLOAD_SUCCESS'', fs_filename pdf_file),
            (''TEXT_EXTRACT_FAIL'', fs_filename pdf_file)]"
proof -
  let ?db1 = "log_event (utcnow w 0) ''UPLOAD_SUCCESS'' (fs_filename pdf_file) s"
  have run: "simplify_document w req s =
      extraction_failed w (fs_filename pdf_file) (form_get req ''model'' ''gemini-1.5-flash'')
        ?db1"
    using assms by (rule simplify_document_failed)
  have ev: "history_events (final_db s (snd (simplify_document w req s))) =
      history_events s @
        [\<lparr>event_id = next_id (map event_id (history_events s)),
          event_type = ''UPLOAD_SUCCESS'', document_name = fs_filename pdf_file,
          timestamp = utcnow w 0\<rparr>,
         \<lparr>event_id = next_id (map event_id (history_events ?db1)),
          event_type = ''TEXT_EXTRACT_FAIL'', document_name = fs_filename pdf_file,
          timestamp = utcnow w 2\<rparr>]"
    unfolding run extraction_failed_result(3) by (simp add: history_events_log_event)
  have out: "fst (simplify_document w req s) =
      Response (error_body ''Could not extract text from the PDF.'') 400"
    unfolding run by (rule extraction_failed_result(1))
  then have "http_status (fst (simplify_document w req s)) = 400"
    by simp
  moreover have "documents (final_db s (snd (simplify_document w req s))) =
      documents s @
        [\<lparr>doc_id = next_id (map doc_id (documents s)), filename = fs_filename pdf_file,
          upload_date = utcnow w 1, status = ''Analysis Failed'',
          summary = Some ''Could not extract text from PDF.'', full_text = None,
          model_used = Some (form_get req ''model'' ''gemini-1.5-flash'')\<rparr>]"
    unfolding run extraction_failed_result(2) by simp
  moreover have "history_events (final_db s (snd (simplify_document w req s))) =
      history_events s @ logged s (snd (simplify_document w req s))"
    unfolding logged_def ev by simp
  moreover have "map (\<lambda>e. (event_type e, document_name e))
      (logged s (snd (simplify_document w req s))) =
        [(''UPLOAD_SUCCESS'', fs_filename pdf_file),
         (''TEXT_EXTRACT_FAIL'', fs_filename pdf_file)]"
    unfolding logged_def ev by simp
  ultimately show ?thesis using out by blast
qed

lemma scanned_hyps:
  "not_extractable (extract_text_from_pdf scanned_world (stream sample_file))"
  by (simp add: scanned_world_def sample_world_def extract_text_from_pdf_def
      not_extractable_def)

theorem simplify_document_no_text_witness:
  "not_extractable (extract_text_from_pdf scanned_world (stream sample_file))
   \<and> http_status (fst (simplify_document scanned_world sample_request empty_db)) = 400
   \<and> map (\<lambda>d. (status d, summary d)) (documents (final_db empty_db
         (snd (simplify_document scanned_world sample_request empty_db)))) =
       [(''Analysis Failed'', Some ''Could not extract text from PDF.'')]
   \<and> map event_type (logged empty_db
         (snd (simplify_document scanned_world sample_request empty_db))) =
       [''UPLOAD_SUCCESS'', ''TEXT_EXTRACT_FAIL'']"
proof -
  note inst = simplify_document_no_text
    [OF sample_hyps(1) sample_hyps(2) scanned_hyps, of empty_db]
  from inst have a: "http_status (fst (simplify_document scanned_world sample_request empty_db)) = 400"
    by blast
  from inst have b: "map (\<lambda>d. (status d, summary d)) (documents (final_db empty_db
         (snd (simplify_document scanned_world sample_request empty_db)))) =
       [(''Analysis Failed'', Some ''Could not extract text from PDF.'')]"
    by (simp add: empty_db_def)
  from inst have "map (\<lambda>e. (event_type e, document_name e)) (logged empty_db
         (snd (simplify_document scanned_world sample_request empty_db))) =
       [(''UPLOAD_SUCCESS'', fs_filename sample_file),
        (''TEXT_EXTRACT_FAIL'', fs_filename sample_file)]"
    by blast
  then have "map fst (map (\<lambda>e. (event_type e, document_name e)) (logged empty_db
         (snd (simplify_document scanned_world sample_request empty_db)))) =
       [''UPLOAD_SUCCESS'', ''TEXT_EXTRACT_FAIL'']"
    by simp
  then have c: "map event_type (logged empty_db
         (snd (simplify_document scanned_world sample_request empty_db))) =
       [''UPLOAD_SUCCESS'', ''TEXT_EXTRACT_FAIL'']"
    by (simp add: comp_def)
  from scanned_hyps a b c show ?thesis by blast
qed

text \<open>
  Text that is only whitespace is stripped to nothing, so a PDF whose pages hold only
  whitespace is answered like a PDF without text.
\<close>

lemma py_strip_whitespace:
  "py_strip [CHR 0x20, CHR 0x0A, CHR 0xC2, CHR 0xA0, CHR 0xE3, CHR 0x80, CHR 0x80] = []"
  "py_strip [CHR 0x20, CHR 0x09, CHR 0x0D, CHR 0x0A] = []"
  "py_strip [CHR 0x20, CHR ''a'', CHR 0x20, CHR ''b'', CHR 0x0A] = [CHR ''a'', CHR 0x20, CHR ''b'']"
  by code_simp+

lemma whitespace_hyps:
  "not_extractable (extract_text_from_pdf whitespace_world (stream sample_file))"
  by (simp add: whitespace_world_def sample_world_def extract_text_from_pdf_def
      not_extractable_def py_strip_whitespace(1))

lemma simplify_document_whitespace_only:
  "fst (simplify_document whitespace_world sample_request empty_db) =
     Response (error_body ''Could not extract text from the PDF.'') 400"
proof -
  have "simplify_document whitespace_world sample_request empty_db =
      extraction_failed whitespace_world (fs_filename sample_file)
        (form_get sample_request ''model'' ''gemini-1.5-flash'')
        (log_event (utcnow whitespace_world 0) ''UPLOAD_SUCCESS'' (fs_filename sample_file)
           empty_db)"
    using sample_hyps(1) sample_hyps(2) whitespace_hyps by (rule simplify_document_failed)
  then show ?thesis by (simp add: extraction_failed_result(1))
qed

section \<open>The model gateway\<close>

lemma validated_model_name_unknown:
  "model_name \<notin> set (map JStr allowed_models) \<Longrightarrow>
   validated_model_name model_name = ''gemini-1.5-flash''"
  by (simp add: validated_model_name_def)

lemma validated_model_name_allowed:
  "name \<in> set allowed_models \<Longrightarrow> validated_model_name (JStr name) = name"
  by (auto simp add: validated_model_name_def)

lemma default_model_allowed: "''gemini-1.5-flash'' \<in> set allowed_models"
  by (simp add: allowed_models_def)

text \<open>An allowed name goes to the constructor as it is, and nothing is printed before.\<close>

lemma get_gemini_model_allowed:
  assumes "name \<in> set allowed_models" and "api_key_present w"
  shows "get_gemini_model w (JStr name) =
           (case generative_model w name of
              None \<Rightarrow> Inr name
            | Some e \<Rightarrow> Inl (initialization_failed w name e))"
proof -
  from assms(1) have "JStr name \<in> set (map JStr allowed_models)" by simp
  then show ?thesis
    using assms by (simp add: get_gemini_model_def validated_model_name_allowed Let_def)
qed

text \<open>
  A name that is not allowed, when the warning is printed: the call does what it does for
  \<open>gemini-1.5-flash\<close>, and when it fails the cause is the missing credential or the
  construction of the default model.
\<close>

lemma get_gemini_model_unknown_name:
  assumes "model_name \<notin> set (map JStr allowed_models)"
    and "py_print w (invalid_model_warning w model_name) = None"
  shows "get_gemini_model w model_name = get_gemini_model w (JStr ''gemini-1.5-flash'')"
    and "api_key_present w \<and> generative_model w ''gemini-1.5-flash'' = None
            \<longrightarrow> get_gemini_model w model_name = Inr ''gemini-1.5-flash''"
    and "\<forall>e. get_gemini_model w model_name = Inl e
            \<longrightarrow> \<not> api_key_present w \<or> generative_model w ''gemini-1.5-flash'' \<noteq> None"
proof -
  have v: "validated_model_name model_name = ''gemini-1.5-flash''"
    using assms(1) by (rule validated_model_name_unknown)
  have d: "JStr ''gemini-1.5-flash'' \<in> set (map JStr allowed_models)"
    using default_model_allowed by simp
  have u: "get_gemini_model w model_name =
      (if \<not> api_key_present w
       then Inl (ValueError ''GOOGLE_API_KEY is not set. Cannot initialize Gemini model.'')
       else (case generative_model w ''gemini-1.5-flash'' of
               None \<Rightarrow> Inr ''gemini-1.5-flash''
             | Some e \<Rightarrow> Inl (initialization_failed w ''gemini-1.5-flash'' e)))"
    using assms by (simp add: get_gemini_model_def v Let_def)
  have f: "get_gemini_model w (JStr ''gemini-1.5-flash'') =
      (if \<not> api_key_present w
       then Inl (ValueError ''GOOGLE_API_KEY is not set. Cannot initialize Gemini model.'')
       else (case generative_model w ''gemini-1.5-flash'' of
               None \<Rightarrow> Inr ''gemini-1.5-flash''
             | Some e \<Rightarrow> Inl (initialization_failed w ''gemini-1.5-flash'' e)))"
    using d validated_model_name_allowed [OF default_model_allowed]
    by (simp add: get_gemini_model_def Let_def del: set_map)
  show "get_gemini_model w model_name = get_gemini_model w (JStr ''gemini-1.5-flash'')"
    unfolding u f by (rule refl)
  show "api_key_present w \<and> generative_model w ''gemini-1.5-flash'' = None
            \<longrightarrow> get_gemini_model w model_name = Inr ''gemini-1.5-flash''"
    unfolding u by simp
  show "\<forall>e. get_gemini_model w model_name = Inl e
            \<longrightarrow> \<not> api_key_present w \<or> generative_model w ''gemini-1.5-flash'' \<noteq> None"
    unfolding u by (auto split: option.splits)
qed

text \<open>
  A name that is not allowed, when the warning cannot be printed: the call ends in the
  \<open>except\<close> branch, with the exception of the print.
\<close>

lemma get_gemini_model_warning_raises:
  assumes "model_name \<notin> set (map JStr allowed_models)" and "api_key_present w"
    and "py_print w (invalid_model_warning w model_name) = Some e"
  shows "get_gemini_model w model_name =
           Inl (initialization_failed w (format_value w model_name) e)"
  using assms by (simp add: get_gemini_model_def)

lemma utf8_stdout_hyps:
  "api_key_present utf8_stdout_world"
  "py_print utf8_stdout_world (invalid_model_warning utf8_stdout_world (JStr lone_surrogate))
     = Some (ValueError ''surrogates not allowed'')"
  "initialization_failed utf8_stdout_world lone_surrogate (ValueError ''surrogates not allowed'')
     = ValueError ''surrogates not allowed''"
  by (simp_all add: utf8_stdout_world_def sample_world_def api_key_present_def
      invalid_model_warning_def initialization_failed_def format_value_def quoted_def
      lone_surrogate_def sublist_Cons_right)

text \<open>
  C4 says that resolving a model name never fails only because the name is not
  recognised. Here it does. The name is the lone surrogate U+D800, sent in the JSON body
  of \<open>/ask\<close>, and the standard output is in UTF-8: the warning about the name cannot be
  printed, the \<open>except\<close> branch cannot print it either, and \<open>get_gemini_model\<close> raises
  the \<open>UnicodeEncodeError\<close>, a \<open>ValueError\<close>, so that \<open>/ask\<close> answers 500; with the
  name \<open>gemini-1.5-flash\<close> the same request in the same world is answered.
\<close>

theorem get_gemini_model_unprintable_name:
  "get_gemini_model utf8_stdout_world (JStr lone_surrogate)
     = Inl (ValueError ''surrogates not allowed'')
   \<and> get_gemini_model utf8_stdout_world (JStr ''gemini-1.5-flash'')
     = Inr ''gemini-1.5-flash''
   \<and> fst (ask_question utf8_stdout_world surrogate_question empty_db) =
       Response (error_body
         ''AI model configuration error for chat: surrogates not allowed'') 500
   \<and> fst (ask_question utf8_stdout_world flash_question empty_db) =
       Response (JObj [(''answer'', JStr ''Sixty days.'')]) 200"
proof -
  have n: "JStr lone_surrogate \<notin> set (map JStr allowed_models)"
    by (simp add: allowed_models_def lone_surrogate_def)
  have a: "get_gemini_model utf8_stdout_world (JStr lone_surrogate)
     = Inl (ValueError ''surrogates not allowed'')"
    using get_gemini_model_warning_raises [OF n utf8_stdout_hyps(1) utf8_stdout_hyps(2)]
    by (simp add: format_value_def utf8_stdout_hyps(3))
  have b: "get_gemini_model utf8_stdout_world (JStr ''gemini-1.5-flash'')
     = Inr ''gemini-1.5-flash''"
    using get_gemini_model_allowed [OF default_model_allowed utf8_stdout_hyps(1)]
    by (simp add: utf8_stdout_world_def sample_world_def)
  have c: "fst (ask_question utf8_stdout_world surrogate_question empty_db) =
       Response (error_body
         ''AI model configuration error for chat: surrogates not allowed'') 500"
    by (simp add: ask_question_def surrogate_question_def answer_def chat_reply_def a)
  have d: "fst (ask_question utf8_stdout_world flash_question empty_db) =
       Response (JObj [(''answer'', JStr ''Sixty days.'')]) 200"
    by (simp add: ask_question_def flash_question_def answer_def chat_reply_def b)
      (simp add: utf8_stdout_world_def sample_world_def)
  from a b c d show ?thesis by (intro conjI) assumption+
qed

section \<open>\<open>/simplify\<close>: every path\<close>

lemma update_added:
  "update_document (next_id (map doc_id (documents s))) f (add_document d s) =
     s\<lparr>documents := documents s @
        [if doc_id d = next_id (map doc_id (documents s)) then f d else d]\<rparr>"
  using next_id_doc_fresh [of _ "documents s"]
  by (simp add: update_document_def add_document_def update_other_rows)

lemma analyse_generated_text:
  assumes "generated_text w sel
      (build_analysis_prompt t (form_get req ''prompt'' ''Provide a comprehensive analysis.'')) = Inr text"
  shows "analyse w req name sel t db1 =
    (Response (JObj [(''summary'', JStr text), (''document_text'', JStr t)]) 200,
     [db1,
      add_document
        \<lparr>doc_id = next_id (map doc_id (documents db1)), filename = name,
         upload_date = utcnow w 1, status = ''In Progress'', summary = None,
         full_text = Some t, model_used = Some sel\<rparr> db1,
      log_event (utcnow w 2) ''ANALYSIS_SUCCESS'' name
        (db1\<lparr>documents := documents db1 @
           [\<lparr>doc_id = next_id (map doc_id (documents db1)), filename = name,
             upload_date = utcnow w 1, status = ''Analyzed'', summary = Some text,
             full_text = Some t, model_used = Some sel\<rparr>]\<rparr>)])"
  using assms
  by (simp add: analyse_def Let_def update_added)

lemma analyse_generated_value_error:
  assumes "generated_text w sel
      (build_analysis_prompt t (form_get req ''prompt'' ''Provide a comprehensive analysis.'')) = Inl (ValueError m)"
  shows "analyse w req name sel t db1 =
    (Response (error_body (''AI model configuration error: '' @ m)) 500,
     [db1,
      add_document
        \<lparr>doc_id = next_id (map doc_id (documents db1)), filename = name,
         upload_date = utcnow w 1, status = ''In Progress'', summary = None,
         full_text = Some t, model_used = Some sel\<rparr> db1,
      log_event (utcnow w 2) ''ANALYSIS_FAIL'' name
        (db1\<lparr>documents := documents db1 @
           [\<lparr>doc_id = next_id (map doc_id (documents db1)), filename = name,
             upload_date = utcnow w 1, status = ''Analysis Failed'',
             summary = Some (''API Error: '' @ m),
             full_text = Some t, model_used = Some sel\<rparr>]\<rparr>)])"
  using assms
  by (simp add: analyse_def Let_def update_added)

lemma analyse_generated_other_error:
  assumes "generated_text w sel
      (build_analysis_prompt t (form_get req ''prompt'' ''Provide a comprehensive analysis.'')) = Inl e" and "\<forall>m. e \<noteq> ValueError m"
  shows "analyse w req name sel t db1 =
    (Response (error_body
       ''Failed to get a response from the AI model. Check server logs for details.'') 500,
     [db1,
      add_document
        \<lparr>doc_id = next_id (map doc_id (documents db1)), filename = name,
         upload_date = utcnow w 1, status = ''In Progress'', summary = None,
         full_text = Some t, model_used = Some sel\<rparr> db1,
      log_event (utcnow w 2) ''ANALYSIS_FAIL'' name
        (db1\<lparr>documents := documents db1 @
           [\<lparr>doc_id = next_id (map doc_id (documents db1)), filename = name,
             upload_date = utcnow w 1, status = ''Analysis Failed'',
             summary = Some (''Analysis failed: '' @ str_exn e),
             full_text = Some t, model_used = Some sel\<rparr>]\<rparr>)])"
  using assms
  by (cases e) (simp_all add: analyse_def Let_def update_added)

lemma simplify_document_rejected:
  assumes "files req ''pdfFile'' = None \<or> (\<exists>f. files req ''pdfFile'' = Some f \<and> fs_filename f = [])"
  shows "snd (simplify_document w req s) = []"
    and "http_status (fst (simplify_document w req s)) = 400"
  using assms by (auto simp add: simplify_document_def)

lemma exn_cases:
  obtains (value_error) m where "e = ValueError m" | (other) "\<forall>m. e \<noteq> ValueError m"
  by (cases e) auto

text \<open>The document that a request with a named file leaves.\<close>

lemma simplify_document_new_document:
  assumes "files req ''pdfFile'' = Some pdf_file" and "fs_filename pdf_file \<noteq> []"
  shows "\<exists>d. documents (final_db s (snd (simplify_document w req s))) = documents s @ [d]
           \<and> doc_id d = next_id (map doc_id (documents s))
           \<and> filename d = fs_filename pdf_file
           \<and> model_used d = Some (form_get req ''model'' ''gemini-1.5-flash'')
           \<and> (status d = ''Analyzed'' \<or> status d = ''Analysis Failed'')"
proof (cases "not_extractable (extract_text_from_pdf w (stream pdf_file))")
  case True
  let ?db1 = "log_event (utcnow w 0) ''UPLOAD_SUCCESS'' (fs_filename pdf_file) s"
  have run: "simplify_document w req s =
      extraction_failed w (fs_filename pdf_file) (form_get req ''model'' ''gemini-1.5-flash'')
        ?db1"
    using assms True by (rule simplify_document_failed)
  show ?thesis unfolding run extraction_failed_result(2) by simp
next
  case False
  then obtain t where t: "extract_text_from_pdf w (stream pdf_file) = Some t" "py_strip t \<noteq> []"
    by (auto simp add: not_extractable_def split: option.splits)
  let ?db1 = "log_event (utcnow w 0) ''UPLOAD_SUCCESS'' (fs_filename pdf_file) s"
  let ?sel = "form_get req ''model'' ''gemini-1.5-flash''"
  let ?prompt = "build_analysis_prompt t
      (form_get req ''prompt'' ''Provide a comprehensive analysis.'')"
  have run: "simplify_document w req s = analyse w req (fs_filename pdf_file) ?sel t ?db1"
    using assms t by (rule simplify_document_analyse)
  show ?thesis
  proof (cases "generated_text w ?sel ?prompt")
    case (Inr summary_text)
    show ?thesis unfolding run analyse_generated_text [OF Inr] by simp
  next
    case (Inl e)
    show ?thesis
    proof (cases e rule: exn_cases)
      case (value_error m)
      with Inl have g: "generated_text w ?sel ?prompt = Inl (ValueError m)" by simp
      show ?thesis unfolding run analyse_generated_value_error [OF g] by simp
    next
      case other
      show ?thesis unfolding run analyse_generated_other_error [OF Inl other] by simp
    qed
  qed
qed

text \<open>
  C10. A \<open>/simplify\<close> request with a named file leaves one new document whose
  \<open>model_used\<close> is the \<open>model\<close> form field as sent, or \<open>gemini-1.5-flash\<close> when
  the field is absent. When that name is not one of the two allowed names, the gateway
  builds the handle of \<open>gemini-1.5-flash\<close>, which is then not the recorded name.
\<close>

theorem model_used_is_requested_name:
  assumes "files req ''pdfFile'' = Some pdf_file" and "fs_filename pdf_file \<noteq> []"
  shows "(\<exists>d. documents (final_db s (snd (simplify_document w req s))) = documents s @ [d]
            \<and> model_used d = Some (form_get req ''model'' ''gemini-1.5-flash''))
       \<and> (form req ''model'' = None \<longrightarrow>
            form_get req ''model'' ''gemini-1.5-flash'' = ''gemini-1.5-flash'')
       \<and> (\<forall>name. form req ''model'' = Some name \<longrightarrow>
            form_get req ''model'' ''gemini-1.5-flash'' = name)
       \<and> (form_get req ''model'' ''gemini-1.5-flash'' \<notin> set allowed_models \<longrightarrow>
            validated_model_name (JStr (form_get req ''model'' ''gemini-1.5-flash''))
              = ''gemini-1.5-flash''
            \<and> validated_model_name (JStr (form_get req ''model'' ''gemini-1.5-flash''))
              \<noteq> form_get req ''model'' ''gemini-1.5-flash'')"
proof -
  have "\<exists>d. documents (final_db s (snd (simplify_document w req s))) = documents s @ [d]
            \<and> model_used d = Some (form_get req ''model'' ''gemini-1.5-flash'')"
    using simplify_document_new_document [OF assms, of s w] by blast
  moreover have "form req ''model'' = None \<longrightarrow>
      form_get req ''model'' ''gemini-1.5-flash'' = ''gemini-1.5-flash''"
    by (simp add: form_get_def)
  moreover have "\<forall>name. form req ''model'' = Some name \<longrightarrow>
      form_get req ''model'' ''gemini-1.5-flash'' = name"
    by (simp add: form_get_def)
  moreover have "form_get req ''model'' ''gemini-1.5-flash'' \<notin> set allowed_models \<longrightarrow>
      validated_model_name (JStr (form_get req ''model'' ''gemini-1.5-flash''))
        = ''gemini-1.5-flash''
      \<and> validated_model_name (JStr (form_get req ''model'' ''gemini-1.5-flash''))
        \<noteq> form_get req ''model'' ''gemini-1.5-flash''"
  proof
    assume out: "form_get req ''model'' ''gemini-1.5-flash'' \<notin> set allowed_models"
    then have "JStr (form_get req ''model'' ''gemini-1.5-flash'') \<notin> set (map JStr allowed_models)"
      by auto
    then have v: "validated_model_name (JStr (form_get req ''model'' ''gemini-1.5-flash''))
        = ''gemini-1.5-flash''"
      by (rule validated_model_name_unknown)
    moreover from out default_model_allowed
    have "form_get req ''model'' ''gemini-1.5-flash'' \<noteq> ''gemini-1.5-flash''"
      by auto
    ultimately show "validated_model_name (JStr (form_get req ''model'' ''gemini-1.5-flash''))
        = ''gemini-1.5-flash''
      \<and> validated_model_name (JStr (form_get req ''model'' ''gemini-1.5-flash''))
        \<noteq> form_get req ''model'' ''gemini-1.5-flash''"
      by simp
  qed
  ultimately show ?thesis by blast
qed

theorem model_used_is_requested_name_witness:
  "form sample_request ''model'' = Some ''gpt-4''
   \<and> ''gpt-4'' \<notin> set allowed_models
   \<and> map model_used (documents (final_db empty_db
        (snd (simplify_document sample_world sample_request empty_db)))) = [Some ''gpt-4'']
   \<and> get_gemini_model sample_world (JStr ''gpt-4'') = Inr ''gemini-1.5-flash''"
proof -
  have a: "form sample_request ''model'' = Some ''gpt-4''"
    by (simp add: sample_request_def)
  have b: "''gpt-4'' \<notin> set allowed_models"
    by (simp add: allowed_models_def)
  note inst = model_used_is_requested_name
    [OF sample_hyps(1) sample_hyps(2), of empty_db sample_world]
  from inst obtain d where
    d: "documents (final_db empty_db (snd (simplify_document sample_world sample_request empty_db)))
          = documents empty_db @ [d]"
       "model_used d = Some (form_get sample_request ''model'' ''gemini-1.5-flash'')"
    by blast
  from inst a have "form_get sample_request ''model'' ''gemini-1.5-flash'' = ''gpt-4''"
    by blast
  with d have c: "map model_used (documents (final_db empty_db
        (snd (simplify_document sample_world sample_request empty_db)))) = [Some ''gpt-4'']"
    by (simp add: empty_db_def)
  from a b c sample_hyps(5) show ?thesis by blast
qed

section \<open>The text extractor\<close>

lemma page_texts_Inr: "page_texts (map Inr ts) = Inr ts"
  by (induction ts) simp_all

lemma page_texts_raises:
  "(\<exists>e. page_texts pages = Inl e) \<longleftrightarrow> (\<exists>e. Inl e \<in> set pages)"
proof (induction pages rule: page_texts.induct)
  case 1
  show ?case by simp
next
  case (2 e ps)
  show ?case by auto
next
  case (3 t ps)
  then show ?case by (auto split: sum.splits)
qed

lemma extract_text_from_pdf_None:
  "extract_text_from_pdf w file_stream = None \<longleftrightarrow>
     (\<exists>e. pdf_reader w file_stream = Inl e) \<or>
     (\<exists>pages e. pdf_reader w file_stream = Inr pages \<and> Inl e \<in> set pages)"
proof (cases "pdf_reader w file_stream")
  case (Inl e)
  then show ?thesis by (simp add: extract_text_from_pdf_def)
next
  case (Inr pages)
  have "extract_text_from_pdf w file_stream = None \<longleftrightarrow> (\<exists>e. page_texts pages = Inl e)"
    using Inr by (simp add: extract_text_from_pdf_def split: sum.splits)
  then show ?thesis using Inr page_texts_raises [of pages] by simp
qed

lemma concat_nonempty: "concat (filter (\<lambda>t. t \<noteq> []) ts) = concat ts"
  by (induction ts) simp_all

lemma extract_text_from_pdf_pages:
  assumes "pdf_reader w file_stream = Inr (map Inr ts)"
  shows "extract_text_from_pdf w file_stream = Some (concat (filter (\<lambda>t. t \<noteq> []) ts))"
  using assms by (simp add: extract_text_from_pdf_def page_texts_Inr)

text \<open>
  C5, as stated, fails: the extractor does return the empty string, here for a scanned
  PDF whose only page has no text. It returns \<open>None\<close> only when the library raises.
\<close>

theorem extract_text_from_pdf_empty_counterexample:
  "extract_text_from_pdf scanned_world (stream sample_file) = Some []
   \<and> extract_text_from_pdf scanned_world (stream sample_file) \<noteq> None"
  by (simp add: scanned_world_def sample_world_def extract_text_from_pdf_def)

text \<open>
  C5, amended. The extractor returns \<open>None\<close> exactly when reading the PDF or extracting
  a page raises. When no page raises it returns the concatenation of the page texts that
  are not empty, which is the empty string exactly when no page has text (and may be
  whitespace only). It is the \<open>/simplify\<close> view that treats \<open>None\<close>, the empty string
  and a whitespace-only string alike, answering 400.
\<close>

theorem extract_text_from_pdf_result:
  "(extract_text_from_pdf w file_stream = None \<longleftrightarrow>
      (\<exists>e. pdf_reader w file_stream = Inl e) \<or>
      (\<exists>pages e. pdf_reader w file_stream = Inr pages \<and> Inl e \<in> set pages))
   \<and> (pdf_reader w file_stream = Inr (map Inr ts) \<longrightarrow>
        extract_text_from_pdf w file_stream = Some (concat (filter (\<lambda>t. t \<noteq> []) ts))
        \<and> (extract_text_from_pdf w file_stream = Some [] \<longleftrightarrow> (\<forall>t \<in> set ts. t = [])))
   \<and> (files req ''pdfFile'' = Some pdf_file \<and> fs_filename pdf_file \<noteq> []
        \<and> not_extractable (extract_text_from_pdf w (stream pdf_file)) \<longrightarrow>
        http_status (fst (simplify_document w req s)) = 400)"
proof -
  have "pdf_reader w file_stream = Inr (map Inr ts) \<longrightarrow>
        extract_text_from_pdf w file_stream = Some (concat (filter (\<lambda>t. t \<noteq> []) ts))
        \<and> (extract_text_from_pdf w file_stream = Some [] \<longleftrightarrow> (\<forall>t \<in> set ts. t = []))"
  proof
    assume r: "pdf_reader w file_stream = Inr (map Inr ts)"
    have e: "extract_text_from_pdf w file_stream = Some (concat (filter (\<lambda>t. t \<noteq> []) ts))"
      using r by (rule extract_text_from_pdf_pages)
    have "extract_text_from_pdf w file_stream = Some [] \<longleftrightarrow> (\<forall>t \<in> set ts. t = [])"
      unfolding e concat_nonempty by simp
    with e show "extract_text_from_pdf w file_stream = Some (concat (filter (\<lambda>t. t \<noteq> []) ts))
        \<and> (extract_text_from_pdf w file_stream = Some [] \<longleftrightarrow> (\<forall>t \<in> set ts. t = []))"
      by simp
  qed
  moreover have "files req ''pdfFile'' = Some pdf_file \<and> fs_filename pdf_file \<noteq> []
        \<and> not_extractable (extract_text_from_pdf w (stream pdf_file)) \<longrightarrow>
        http_status (fst (simplify_document w req s)) = 400"
  proof
    assume h: "files req ''pdfFile'' = Some pdf_file \<and> fs_filename pdf_file \<noteq> []
        \<and> not_extractable (extract_text_from_pdf w (stream pdf_file))"
    then have "simplify_document w req s =
      extraction_failed w (fs_filename pdf_file) (form_get req ''model'' ''gemini-1.5-flash'')
        (log_event (utcnow w 0) ''UPLOAD_SUCCESS'' (fs_filename pdf_file) s)"
      by (simp add: simplify_document_failed)
    then show "http_status (fst (simplify_document w req s)) = 400"
      by (simp add: extraction_failed_result(1))
  qed
  ultimately show ?thesis using extract_text_from_pdf_None [of w file_stream] by blast
qed

theorem extract_text_from_pdf_result_witness:
  "pdf_reader scanned_world (stream sample_file) = Inr (map Inr [[]])
   \<and> extract_text_from_pdf scanned_world (stream sample_file) = Some []
   \<and> not_extractable (extract_text_from_pdf scanned_world (stream sample_file))
   \<and> http_status (fst (simplify_document scanned_world sample_request empty_db)) = 400"
proof -
  have r: "pdf_reader scanned_world (stream sample_file) = Inr (map Inr [[]])"
    by (simp add: scanned_world_def sample_world_def)
  note inst = extract_text_from_pdf_result
    [of scanned_world "stream sample_file" "[[]]" sample_request sample_file empty_db]
  from inst r have e: "extract_text_from_pdf scanned_world (stream sample_file) = Some []"
    by simp
  from inst sample_hyps(1) sample_hyps(2) scanned_hyps
  have "http_status (fst (simplify_document scanned_world sample_request empty_db)) = 400"
    by blast
  with r e scanned_hyps show ?thesis by blast
qed

section \<open>The missing credential\<close>

lemma get_gemini_model_no_key:
  "\<not> api_key_present w \<Longrightarrow>
   get_gemini_model w model_name =
     Inl (ValueError ''GOOGLE_API_KEY is not set. Cannot initialize Gemini model.'')"
  by (simp add: get_gemini_model_def)

lemma generated_text_no_key:
  "\<not> api_key_present w \<Longrightarrow>
   generated_text w sel prompt =
     Inl (ValueError ''GOOGLE_API_KEY is not set. Cannot initialize Gemini model.'')"
  by (simp add: generated_text_def get_gemini_model_no_key)

lemma ask_question_object:
  assumes "''document_text'' \<in> set (map fst kvs)" and "''question'' \<in> set (map fst kvs)"
  shows "\<exists>document_text question.
     map_of kvs ''document_text'' = Some document_text \<and>
     map_of kvs ''question'' = Some question \<and>
     ask_question w (JObj kvs) s =
       (answer w (case map_of kvs ''model'' of None \<Rightarrow> JStr ''gemini-1.5-flash'' | Some v \<Rightarrow> v)
          document_text question, [])"
proof -
  from assms(1) obtain dt where dt: "map_of kvs ''document_text'' = Some dt"
    by (metis list.set_map map_of_eq_None_iff not_Some_eq)
  from assms(2) obtain q where q: "map_of kvs ''question'' = Some q"
    by (metis list.set_map map_of_eq_None_iff not_Some_eq)
  from assms(1) have ne: "kvs \<noteq> []" by auto
  show ?thesis
    using assms dt q ne by (simp add: ask_question_def)
qed

lemma answer_no_key:
  "\<not> api_key_present w \<Longrightarrow>
   answer w sel document_text question =
     Response (error_body (''AI model configuration error for chat: ''
       @ ''GOOGLE_API_KEY is not set. Cannot initialize Gemini model.'')) 500"
  by (simp add: answer_def chat_reply_def get_gemini_model_no_key)

lemma ask_question_fields:
  assumes "map_of kvs ''document_text'' = Some document_text"
    and "map_of kvs ''question'' = Some question"
  shows "ask_question w (JObj kvs) s =
       (answer w (case map_of kvs ''model'' of None \<Rightarrow> JStr ''gemini-1.5-flash'' | Some v \<Rightarrow> v)
          document_text question, [])"
proof -
  from assms(1) have a: "''document_text'' \<in> set (map fst kvs)"
    by (metis list.set_map map_of_eq_None_iff option.distinct(1))
  from assms(2) have b: "''question'' \<in> set (map fst kvs)"
    by (metis list.set_map map_of_eq_None_iff option.distinct(1))
  from ask_question_object [OF a b, of w s] assms show ?thesis by auto
qed

lemma answer_other_error:
  assumes "chat_reply w sel document_text question = Inl e" and "\<forall>m. e \<noteq> ValueError m"
  shows "answer w sel document_text question =
     Response (error_body
       ''Failed to get a response for your question. Check server logs for details.'') 500"
  using assms by (cases e) (simp_all add: answer_def)

text \<open>
  C6. When the environment holds no credential (the variable is unset or empty),
  \<open>get_gemini_model\<close> raises its \<open>ValueError\<close> for every requested name. A
  \<open>/simplify\<close> request that reaches the analysis and an \<open>/ask\<close> request that has both
  fields then end in status 500 with the configuration-error message that carries the
  text of that exception. A generation call of \<open>/simplify\<close>, and a chat of \<open>/ask\<close>, that
  raises any other exception (in a world \<open>w'\<close>) ends in status 500 as well, with the
  generic message of its view, which is a different body.
\<close>

theorem missing_credential_is_configuration_error:
  assumes "\<not> api_key_present w"
  shows "get_gemini_model w model_name =
           Inl (ValueError ''GOOGLE_API_KEY is not set. Cannot initialize Gemini model.'')
       \<and> (files req ''pdfFile'' = Some pdf_file \<and> fs_filename pdf_file \<noteq> []
            \<and> \<not> not_extractable (extract_text_from_pdf w (stream pdf_file)) \<longrightarrow>
           fst (simplify_document w req s) =
             Response (error_body (''AI model configuration error: ''
               @ ''GOOGLE_API_KEY is not set. Cannot initialize Gemini model.'')) 500)
       \<and> (''document_text'' \<in> set (map fst kvs) \<and> ''question'' \<in> set (map fst kvs) \<longrightarrow>
           fst (ask_question w (JObj kvs) s) =
             Response (error_body (''AI model configuration error for chat: ''
               @ ''GOOGLE_API_KEY is not set. Cannot initialize Gemini model.'')) 500)
       \<and> (files req ''pdfFile'' = Some pdf_file \<and> fs_filename pdf_file \<noteq> []
            \<and> extract_text_from_pdf w' (stream pdf_file) = Some t \<and> py_strip t \<noteq> []
            \<and> generated_text w' (form_get req ''model'' ''gemini-1.5-flash'')
                 (build_analysis_prompt t
                    (form_get req ''prompt'' ''Provide a comprehensive analysis.'')) = Inl e
            \<and> (\<forall>m. e \<noteq> ValueError m) \<longrightarrow>
           fst (simplify_document w' req s) =
             Response (error_body
               ''Failed to get a response from the AI model. Check server logs for details.'')
               500
           \<and> fst (simplify_document w' req s) \<noteq>
             Response (error_body (''AI model configuration error: ''
               @ ''GOOGLE_API_KEY is not set. Cannot initialize Gemini model.'')) 500)
       \<and> (map_of kvs ''document_text'' = Some document_text
            \<and> map_of kvs ''question'' = Some question
            \<and> chat_reply w'
                 (case map_of kvs ''model'' of None \<Rightarrow> JStr ''gemini-1.5-flash'' | Some v \<Rightarrow> v)
                 document_text question = Inl e'
            \<and> (\<forall>m. e' \<noteq> ValueError m) \<longrightarrow>
           fst (ask_question w' (JObj kvs) s) =
             Response (error_body
               ''Failed to get a response for your question. Check server logs for details.'')
               500
           \<and> fst (ask_question w' (JObj kvs) s) \<noteq>
             Response (error_body (''AI model configuration error for chat: ''
               @ ''GOOGLE_API_KEY is not set. Cannot initialize Gemini model.'')) 500)"
proof -
  let ?msg = "''GOOGLE_API_KEY is not set. Cannot initialize Gemini model.''"
  have a: "get_gemini_model w model_name = Inl (ValueError ?msg)"
    using assms by (rule get_gemini_model_no_key)
  have b: "files req ''pdfFile'' = Some pdf_file \<and> fs_filename pdf_file \<noteq> []
            \<and> \<not> not_extractable (extract_text_from_pdf w (stream pdf_file)) \<longrightarrow>
           fst (simplify_document w req s) =
             Response (error_body (''AI model configuration error: '' @ ?msg)) 500"
  proof
    assume h: "files req ''pdfFile'' = Some pdf_file \<and> fs_filename pdf_file \<noteq> []
            \<and> \<not> not_extractable (extract_text_from_pdf w (stream pdf_file))"
    then obtain t where t: "extract_text_from_pdf w (stream pdf_file) = Some t" "py_strip t \<noteq> []"
      by (auto simp add: not_extractable_def split: option.splits)
    have run: "simplify_document w req s =
        analyse w req (fs_filename pdf_file) (form_get req ''model'' ''gemini-1.5-flash'') t
          (log_event (utcnow w 0) ''UPLOAD_SUCCESS'' (fs_filename pdf_file) s)"
      using h t by (simp add: simplify_document_analyse)
    show "fst (simplify_document w req s) =
        Response (error_body (''AI model configuration error: '' @ ?msg)) 500"
      unfolding run analyse_generated_value_error [OF generated_text_no_key [OF assms]]
      by simp
  qed
  have c: "''document_text'' \<in> set (map fst kvs) \<and> ''question'' \<in> set (map fst kvs) \<longrightarrow>
           fst (ask_question w (JObj kvs) s) =
             Response (error_body (''AI model configuration error for chat: '' @ ?msg)) 500"
  proof
    assume h: "''document_text'' \<in> set (map fst kvs) \<and> ''question'' \<in> set (map fst kvs)"
    then obtain dt q where
      "ask_question w (JObj kvs) s =
         (answer w (case map_of kvs ''model'' of None \<Rightarrow> JStr ''gemini-1.5-flash'' | Some v \<Rightarrow> v)
            dt q, [])"
      using ask_question_object [of kvs w s] by blast
    then show "fst (ask_question w (JObj kvs) s) =
        Response (error_body (''AI model configuration error for chat: '' @ ?msg)) 500"
      using answer_no_key [OF assms] by simp
  qed
  have d: "files req ''pdfFile'' = Some pdf_file \<and> fs_filename pdf_file \<noteq> []
            \<and> extract_text_from_pdf w' (stream pdf_file) = Some t \<and> py_strip t \<noteq> []
            \<and> generated_text w' (form_get req ''model'' ''gemini-1.5-flash'')
                 (build_analysis_prompt t
                    (form_get req ''prompt'' ''Provide a comprehensive analysis.'')) = Inl e
            \<and> (\<forall>m. e \<noteq> ValueError m) \<longrightarrow>
           fst (simplify_document w' req s) =
             Response (error_body
               ''Failed to get a response from the AI model. Check server logs for details.'')
               500
           \<and> fst (simplify_document w' req s) \<noteq>
             Response (error_body (''AI model configuration error: '' @ ?msg)) 500"
  proof
    assume h: "files req ''pdfFile'' = Some pdf_file \<and> fs_filename pdf_file \<noteq> []
            \<and> extract_text_from_pdf w' (stream pdf_file) = Some t \<and> py_strip t \<noteq> []
            \<and> generated_text w' (form_get req ''model'' ''gemini-1.5-flash'')
                 (build_analysis_prompt t
                    (form_get req ''prompt'' ''Provide a comprehensive analysis.'')) = Inl e
            \<and> (\<forall>m. e \<noteq> ValueError m)"
    have run: "simplify_document w' req s =
        analyse w' req (fs_filename pdf_file) (form_get req ''model'' ''gemini-1.5-flash'') t
          (log_event (utcnow w' 0) ''UPLOAD_SUCCESS'' (fs_filename pdf_file) s)"
      using h by (simp add: simplify_document_analyse)
    have g: "generated_text w' (form_get req ''model'' ''gemini-1.5-flash'')
                 (build_analysis_prompt t
                    (form_get req ''prompt'' ''Provide a comprehensive analysis.'')) = Inl e"
      and o: "\<forall>m. e \<noteq> ValueError m"
      using h by blast+
    have r: "fst (simplify_document w' req s) =
        Response (error_body
          ''Failed to get a response from the AI model. Check server logs for details.'') 500"
      unfolding run analyse_generated_other_error [OF g o] by simp
    moreover have "fst (simplify_document w' req s) \<noteq>
        Response (error_body (''AI model configuration error: '' @ ?msg)) 500"
      unfolding r by (simp add: error_body_def)
    ultimately show "fst (simplify_document w' req s) =
             Response (error_body
               ''Failed to get a response from the AI model. Check server logs for details.'')
               500
           \<and> fst (simplify_document w' req s) \<noteq>
             Response (error_body (''AI model configuration error: '' @ ?msg)) 500"
      by blast
  qed
  have g: "map_of kvs ''document_text'' = Some document_text
            \<and> map_of kvs ''question'' = Some question
            \<and> chat_reply w'
                 (case map_of kvs ''model'' of None \<Rightarrow> JStr ''gemini-1.5-flash'' | Some v \<Rightarrow> v)
                 document_text question = Inl e'
            \<and> (\<forall>m. e' \<noteq> ValueError m) \<longrightarrow>
           fst (ask_question w' (JObj kvs) s) =
             Response (error_body
               ''Failed to get a response for your question. Check server logs for details.'')
               500
           \<and> fst (ask_question w' (JObj kvs) s) \<noteq>
             Response (error_body (''AI model configuration error for chat: '' @ ?msg)) 500"
  proof
    assume h: "map_of kvs ''document_text'' = Some document_text
            \<and> map_of kvs ''question'' = Some question
            \<and> chat_reply w'
                 (case map_of kvs ''model'' of None \<Rightarrow> JStr ''gemini-1.5-flash'' | Some v \<Rightarrow> v)
                 document_text question = Inl e'
            \<and> (\<forall>m. e' \<noteq> ValueError m)"
    then have f: "map_of kvs ''document_text'' = Some document_text"
        "map_of kvs ''question'' = Some question"
      and r: "chat_reply w'
                 (case map_of kvs ''model'' of None \<Rightarrow> JStr ''gemini-1.5-flash'' | Some v \<Rightarrow> v)
                 document_text question = Inl e'"
      and o: "\<forall>m. e' \<noteq> ValueError m"
      by blast+
    have r1: "fst (ask_question w' (JObj kvs) s) =
        Response (error_body
          ''Failed to get a response for your question. Check server logs for details.'') 500"
      unfolding ask_question_fields [OF f] fst_conv by (rule answer_other_error [OF r o])
    moreover have "fst (ask_question w' (JObj kvs) s) \<noteq>
        Response (error_body (''AI model configuration error for chat: '' @ ?msg)) 500"
      unfolding r1 by (simp add: error_body_def)
    ultimately show "fst (ask_question w' (JObj kvs) s) =
             Response (error_body
               ''Failed to get a response for your question. Check server logs for details.'')
               500
           \<and> fst (ask_question w' (JObj kvs) s) \<noteq>
             Response (error_body (''AI model configuration error for chat: '' @ ?msg)) 500"
      by (rule conjI)
  qed
  from a b c d g show ?thesis by (intro conjI) assumption+
qed

lemma keyless_hyps:
  "\<not> api_key_present keyless_world"
  "\<not> not_extractable (extract_text_from_pdf keyless_world (stream sample_file))"
  using py_strip_sample
  by (simp_all add: keyless_world_def sample_world_def api_key_present_def
      extract_text_from_pdf_def not_extractable_def)

lemma failing_hyps:
  "extract_text_from_pdf failing_world (stream sample_file) = Some ''Lease agreement''"
  "generated_text failing_world (form_get sample_request ''model'' ''gemini-1.5-flash'')
     (build_analysis_prompt ''Lease agreement''
        (form_get sample_request ''prompt'' ''Provide a comprehensive analysis.''))
   = Inl (OtherException ''timed out'')"
  "chat_reply failing_world (JStr ''gemini-1.5-flash'') (JStr ''Lease agreement'')
     (JStr ''What is the notice period?'') = Inl (OtherException ''timed out'')"
  by (simp_all add: failing_world_def sample_world_def extract_text_from_pdf_def
      generated_text_def chat_reply_def get_gemini_model_def api_key_present_def
      validated_model_name_def allowed_models_def sample_hyps(4))

theorem missing_credential_is_configuration_error_witness:
  "\<not> api_key_present keyless_world
   \<and> fst (simplify_document keyless_world sample_request empty_db) =
       Response (error_body
         ''AI model configuration error: GOOGLE_API_KEY is not set. Cannot initialize Gemini model.'')
         500
   \<and> fst (ask_question keyless_world sample_question empty_db) =
       Response (error_body
         ''AI model configuration error for chat: GOOGLE_API_KEY is not set. Cannot initialize Gemini model.'')
         500
   \<and> fst (simplify_document failing_world sample_request empty_db) =
       Response (error_body
         ''Failed to get a response from the AI model. Check server logs for details.'') 500
   \<and> fst (ask_question failing_world sample_question empty_db) =
       Response (error_body
         ''Failed to get a response for your question. Check server logs for details.'') 500"
proof -
  note inst = missing_credential_is_configuration_error
    [OF keyless_hyps(1), where req = sample_request and pdf_file = sample_file
      and s = empty_db and w' = failing_world and t = "''Lease agreement''"
      and e = "OtherException ''timed out''" and e' = "OtherException ''timed out''"
      and document_text = "JStr ''Lease agreement''"
      and question = "JStr ''What is the notice period?''"
      and kvs = "[(''document_text'', JStr ''Lease agreement''),
                  (''question'', JStr ''What is the notice period?'')]"]
  note simplify_key = inst [THEN conjunct2, THEN conjunct1]
  note ask_key = inst [THEN conjunct2, THEN conjunct2, THEN conjunct1]
  note simplify_other = inst [THEN conjunct2, THEN conjunct2, THEN conjunct2, THEN conjunct1]
  note ask_other = inst [THEN conjunct2, THEN conjunct2, THEN conjunct2, THEN conjunct2]
  from simplify_key sample_hyps(1) sample_hyps(2) keyless_hyps(2)
  have a: "fst (simplify_document keyless_world sample_request empty_db) =
       Response (error_body
         ''AI model configuration error: GOOGLE_API_KEY is not set. Cannot initialize Gemini model.'')
         500"
    by simp
  from ask_key have b: "fst (ask_question keyless_world sample_question empty_db) =
       Response (error_body
         ''AI model configuration error for chat: GOOGLE_API_KEY is not set. Cannot initialize Gemini model.'')
         500"
    by (simp add: sample_question_def)
  from simplify_other sample_hyps(1) sample_hyps(2) failing_hyps(1) failing_hyps(2)
    py_strip_sample
  have c: "fst (simplify_document failing_world sample_request empty_db) =
       Response (error_body
         ''Failed to get a response from the AI model. Check server logs for details.'') 500"
    by simp
  from ask_other failing_hyps(3)
  have d: "fst (ask_question failing_world sample_question empty_db) =
       Response (error_body
         ''Failed to get a response for your question. Check server logs for details.'') 500"
    by (simp add: sample_question_def)
  from keyless_hyps(1) a b c d show ?thesis by (intro conjI) assumption+
qed

section \<open>The listings\<close>

lemma insort_desc_mset: "mset (insort_desc f x xs) = add_mset x (mset xs)"
  by (induction xs) simp_all

lemma insort_desc_set: "set (insort_desc f x xs) = insert x (set xs)"
  by (induction xs) auto

lemma foldr_insort_desc_mset: "mset (foldr (insort_desc f) xs []) = mset xs"
  by (induction xs) (simp_all add: insort_desc_mset)

lemma order_by_desc_mset: "mset (order_by_desc f xs) = mset xs"
  by (simp add: order_by_desc_def foldr_insort_desc_mset)

lemma order_by_desc_set: "set (order_by_desc f xs) = set xs"
  using order_by_desc_mset [of f xs] by (metis set_mset_mset)

lemma insort_desc_sorted:
  "sorted_wrt (\<lambda>a b. f b \<le> f a) xs \<Longrightarrow> sorted_wrt (\<lambda>a b. f b \<le> f a) (insort_desc f x xs)"
  by (induction xs) (auto simp add: insort_desc_set)

lemma foldr_insort_desc_sorted: "sorted_wrt (\<lambda>a b. f b \<le> f a) (foldr (insort_desc f) xs [])"
  by (induction xs) (simp_all add: insort_desc_sorted)

lemma order_by_desc_sorted: "sorted_wrt (\<lambda>a b. f b \<le> f a) (order_by_desc f xs)"
  by (simp add: order_by_desc_def foldr_insort_desc_sorted)

lemma sorted_wrt_strict:
  assumes "sorted_wrt (\<lambda>a b. f b \<le> f a) xs" and "distinct (map f xs)"
  shows "sorted_wrt (\<lambda>a b. f b < (f a :: 'k :: linorder)) xs"
  using assms
proof (induction xs)
  case Nil
  show ?case by simp
next
  case (Cons x xs)
  have "f y < f x" if "y \<in> set xs" for y
  proof -
    from that Cons.prems(1) have "f y \<le> f x" by simp
    moreover from Cons.prems(2) have "f x \<notin> f ` set xs" by simp
    with that have "f y \<noteq> f x" by (metis imageI)
    ultimately show ?thesis by simp
  qed
  with Cons show ?case by simp
qed

lemma order_by_desc_strict:
  assumes "distinct (map f xs)"
  shows "sorted_wrt (\<lambda>a b. f b < (f a :: 'k :: linorder)) (order_by_desc f xs)"
proof -
  have "mset (map f (order_by_desc f xs)) = mset (map f xs)"
    by (simp add: order_by_desc_mset)
  then have "distinct (map f (order_by_desc f xs))"
    using assms by (metis mset_eq_imp_distinct_iff)
  with order_by_desc_sorted [of f xs] show ?thesis by (rule sorted_wrt_strict)
qed

lemma strict_order_distinct:
  "sorted_wrt (\<lambda>a b. f b < (f a :: 'k :: linorder)) xs \<Longrightarrow> distinct (map f xs)"
  by (induction xs) auto

lemma order_by_desc_strict_iff:
  "sorted_wrt (\<lambda>a b. f b < (f a :: 'k :: linorder)) (order_by_desc f xs) \<longleftrightarrow> distinct (map f xs)"
proof
  assume "sorted_wrt (\<lambda>a b. f b < f a) (order_by_desc f xs)"
  then have "distinct (map f (order_by_desc f xs))" by (rule strict_order_distinct)
  moreover have "mset (map f (order_by_desc f xs)) = mset (map f xs)"
    by (simp add: order_by_desc_mset)
  ultimately show "distinct (map f xs)" by (metis mset_eq_imp_distinct_iff)
next
  assume "distinct (map f xs)"
  then show "sorted_wrt (\<lambda>a b. f b < f a) (order_by_desc f xs)" by (rule order_by_desc_strict)
qed

lemma documents_newest_first_order:
  "mset (documents_newest_first s) = mset (documents s)"
  "descending (map upload_date (documents_newest_first s))"
  "strictly_descending (map upload_date (documents_newest_first s)) \<longleftrightarrow>
     distinct (map dt_key (map upload_date (documents s)))"
  using order_by_desc_sorted [of "\<lambda>d. dt_key (upload_date d)" "documents s"]
    order_by_desc_strict_iff [of "\<lambda>d. dt_key (upload_date d)" "documents s"]
  by (simp_all add: documents_newest_first_def descending_def strictly_descending_def
      order_by_desc_mset sorted_wrt_map comp_def)

lemma events_newest_first_order:
  "mset (events_newest_first s) = mset (history_events s)"
  "descending (map timestamp (events_newest_first s))"
  "strictly_descending (map timestamp (events_newest_first s)) \<longleftrightarrow>
     distinct (map dt_key (map timestamp (history_events s)))"
  using order_by_desc_sorted [of "\<lambda>e. dt_key (timestamp e)" "history_events s"]
    order_by_desc_strict_iff [of "\<lambda>e. dt_key (timestamp e)" "history_events s"]
  by (simp_all add: events_newest_first_def descending_def strictly_descending_def
      order_by_desc_mset sorted_wrt_map comp_def)

text \<open>
  C9, as stated, fails: the order of a listing is not always strict. The two documents
  of this database have the same \<open>upload_date\<close>, and its two events the same
  \<open>timestamp\<close> (nothing in the tables makes a timestamp unique); both listings hold
  both rows, and neither is strictly descending.
\<close>

theorem listings_tie_counterexample:
  "map upload_date (documents_newest_first tie_db) = [sample_time 1, sample_time 1]
   \<and> \<not> strictly_descending (map upload_date (documents_newest_first tie_db))
   \<and> map timestamp (events_newest_first tie_db) = [sample_time 0, sample_time 0]
   \<and> \<not> strictly_descending (map timestamp (events_newest_first tie_db))"
  by (simp add: tie_db_def documents_newest_first_def events_newest_first_def
      order_by_desc_def strictly_descending_def)

text \<open>
  C9, amended. The \<open>/documents\<close> response is the list of the serialised rows of the
  query, which holds every document row, each once, in descending order of
  \<open>upload_date\<close>: no row comes before a row with a later timestamp. The order is
  strictly descending exactly when no two rows share a timestamp. The \<open>/history\<close>
  response is the same for the event rows and their \<open>timestamp\<close>.
\<close>

theorem listings_newest_first:
  "get_documents s =
     (Response (JArr (map
        (\<lambda>d. JObj [(''id'', JInt (int (doc_id d))),
                   (''filename'', JStr (filename d)),
                   (''upload_date'', JStr (strftime_date (upload_date d))),
                   (''status'', JStr (status d)),
                   (''summary'', json_opt (summary d)),
                   (''full_text'', json_opt (full_text d)),
                   (''model_used'', json_opt (model_used d))])
        (documents_newest_first s))) 200, [])
   \<and> mset (documents_newest_first s) = mset (documents s)
   \<and> descending (map upload_date (documents_newest_first s))
   \<and> (strictly_descending (map upload_date (documents_newest_first s)) \<longleftrightarrow>
        distinct (map dt_key (map upload_date (documents s))))
   \<and> get_history s =
     (Response (JArr (map
        (\<lambda>e. JObj [(''id'', JInt (int (event_id e))),
                   (''event_type'', JStr (event_type e)),
                   (''document_name'', JStr (document_name e)),
                   (''timestamp'', JStr (strftime_date_time (timestamp e)))])
        (events_newest_first s))) 200, [])
   \<and> mset (events_newest_first s) = mset (history_events s)
   \<and> descending (map timestamp (events_newest_first s))
   \<and> (strictly_descending (map timestamp (events_newest_first s)) \<longleftrightarrow>
        distinct (map dt_key (map timestamp (history_events s))))"
proof -
  have a: "get_documents s =
     (Response (JArr (map
        (\<lambda>d. JObj [(''id'', JInt (int (doc_id d))),
                   (''filename'', JStr (filename d)),
                   (''upload_date'', JStr (strftime_date (upload_date d))),
                   (''status'', JStr (status d)),
                   (''summary'', json_opt (summary d)),
                   (''full_text'', json_opt (full_text d)),
                   (''model_used'', json_opt (model_used d))])
        (documents_newest_first s))) 200, [])"
    by (simp add: get_documents_def document_to_dict_def)
  have b: "get_history s =
     (Response (JArr (map
        (\<lambda>e. JObj [(''id'', JInt (int (event_id e))),
                   (''event_type'', JStr (event_type e)),
                   (''document_name'', JStr (document_name e)),
                   (''timestamp'', JStr (strftime_date_time (timestamp e)))])
        (events_newest_first s))) 200, [])"
    by (simp add: get_history_def event_to_dict_def)
  from a documents_newest_first_order [of s] b events_newest_first_order [of s]
  show ?thesis by (intro conjI) assumption+
qed

lemma sample_db_distinct:
  "distinct (map dt_key (map upload_date (documents sample_db)))"
  "distinct (map dt_key (map timestamp (history_events sample_db)))"
  by (simp_all add: sample_db_def sample_time_def dt_key_def)

lemma sample_db_order:
  "map doc_id (documents_newest_first sample_db) = [2, 1]"
  "map event_id (events_newest_first sample_db) = [4, 3, 2, 1]"
  by (simp_all add: sample_db_def sample_time_def dt_key_def order_by_desc_def
      documents_newest_first_def events_newest_first_def)

theorem listings_newest_first_witness:
  "distinct (map dt_key (map upload_date (documents sample_db)))
   \<and> distinct (map dt_key (map timestamp (history_events sample_db)))
   \<and> strictly_descending (map upload_date (documents_newest_first sample_db))
   \<and> strictly_descending (map timestamp (events_newest_first sample_db))
   \<and> map doc_id (documents_newest_first sample_db) = [2, 1]
   \<and> map event_id (events_newest_first sample_db) = [4, 3, 2, 1]"
proof -
  note inst = listings_newest_first [of sample_db]
  note documents_strict = inst [THEN conjunct2, THEN conjunct2, THEN conjunct2, THEN conjunct1]
  note events_strict = inst [THEN conjunct2, THEN conjunct2, THEN conjunct2, THEN conjunct2,
      THEN conjunct2, THEN conjunct2, THEN conjunct2]
  from documents_strict sample_db_distinct(1)
  have a: "strictly_descending (map upload_date (documents_newest_first sample_db))"
    by simp
  from events_strict sample_db_distinct(2)
  have b: "strictly_descending (map timestamp (events_newest_first sample_db))"
    by simp
  from sample_db_distinct a b sample_db_order show ?thesis
    by (intro conjI) assumption+
qed

section \<open>\<open>DELETE /document/<id>\<close>\<close>

lemma document_to_dict_id: "document_to_dict a = document_to_dict b \<Longrightarrow> doc_id a = doc_id b"
  by (simp add: document_to_dict_def)

lemma find_key_None: "find (\<lambda>d. doc_id d = i) ds = None \<longleftrightarrow> (\<forall>d \<in> set ds. doc_id d \<noteq> i)"
  by (auto simp add: find_None_iff)

lemma find_key_Some:
  "find (\<lambda>d. doc_id d = i) ds = Some doc \<Longrightarrow> doc \<in> set ds \<and> doc_id doc = i"
  by (auto simp add: find_Some_iff)

lemma delete_document_overflow:
  assumes "sqlite_max_integer < i"
  shows "delete_document w i s =
     (Unhandled (OverflowError ''Python int too large to convert to SQLite INTEGER''), [])"
  using assms by (simp add: delete_document_def)

lemma delete_document_missing:
  assumes "i \<le> sqlite_max_integer" and "\<forall>d \<in> set (documents s). doc_id d \<noteq> i"
  shows "delete_document w i s = (Abort 404, [])"
proof -
  from assms(2) have "find (\<lambda>d. doc_id d = i) (documents s) = None"
    by (simp add: find_key_None)
  then show ?thesis using assms(1) by (simp add: delete_document_def)
qed

lemma delete_document_found:
  assumes "i \<le> sqlite_max_integer" and "find (\<lambda>d. doc_id d = i) (documents s) = Some doc"
  shows "delete_document w i s =
     (Response (JObj [(''message'', JStr ''Document deleted successfully.'')]) 200,
      [delete_row i s, log_event (utcnow w 0) ''DELETE_DOCUMENT'' (filename doc) (delete_row i s)])"
  using assms by (simp add: delete_document_def Let_def)

lemma delete_row_simps [simp]:
  "documents (delete_row i s) = filter (\<lambda>d. doc_id d \<noteq> i) (documents s)"
  "history_events (delete_row i s) = history_events s"
  by (simp_all add: delete_row_def)

lemma delete_document_found_result:
  assumes b: "i \<le> sqlite_max_integer" and f: "find (\<lambda>d. doc_id d = i) (documents s) = Some doc"
  shows "http_status (fst (delete_document w i s)) = 200"
    and "documents (final_db s (snd (delete_document w i s))) =
           filter (\<lambda>d. doc_id d \<noteq> i) (documents s)"
    and "history_events (final_db s (snd (delete_document w i s))) =
           history_events s @
             [\<lparr>event_id = next_id (map event_id (history_events s)),
               event_type = ''DELETE_DOCUMENT'', document_name = filename doc,
               timestamp = utcnow w 0\<rparr>]"
  by (simp_all add: delete_document_found [OF b f] history_events_log_event)

lemma listing_after_delete:
  "fst (get_documents (final_db s (snd (delete_document w i s)))) =
     Response (JArr (map document_to_dict
       (order_by_desc (\<lambda>d. dt_key (upload_date d))
          (documents (final_db s (snd (delete_document w i s))))))) 200"
  by (simp add: get_documents_def documents_newest_first_def)

lemma deleted_not_listed:
  assumes "doc_id doc = i"
  shows "document_to_dict doc \<notin> set (map document_to_dict
           (order_by_desc (\<lambda>d. dt_key (upload_date d))
              (filter (\<lambda>d. doc_id d \<noteq> i) ds)))"
proof
  assume "document_to_dict doc \<in> set (map document_to_dict
           (order_by_desc (\<lambda>d. dt_key (upload_date d))
              (filter (\<lambda>d. doc_id d \<noteq> i) ds)))"
  then obtain d where d: "d \<in> set (order_by_desc (\<lambda>d. dt_key (upload_date d))
              (filter (\<lambda>d. doc_id d \<noteq> i) ds))"
      and eq: "document_to_dict doc = document_to_dict d"
    by (auto simp only: set_map image_iff)
  from d have "doc_id d \<noteq> i" by (simp add: order_by_desc_set)
  moreover from eq have "doc_id doc = doc_id d" by (rule document_to_dict_id)
  ultimately show False using assms by simp
qed

lemma find_key_exists:
  "(\<exists>d \<in> set ds. doc_id d = i) \<Longrightarrow> \<exists>doc. find (\<lambda>d. doc_id d = i) ds = Some doc"
  using find_key_None [of i ds] by (cases "find (\<lambda>d. doc_id d = i) ds") auto

text \<open>
  A \<open>DELETE\<close> whose id fits an SQLite integer. For a key that no document row has it
  is answered with 404 and commits nothing. When a row has the key, \<open>get_or_404\<close> finds
  one (the only one, keys being unique); the response is 200, the rows with that key are
  gone from the table, the listing that \<open>/documents\<close> gives in the state so left is the
  listing of the other rows and does not contain the deleted document, and exactly one
  event, \<open>DELETE_DOCUMENT\<close> with the document's filename, is appended to the history.
\<close>

lemma delete_document_result:
  assumes bound: "i \<le> sqlite_max_integer"
  shows "((\<forall>d \<in> set (documents s). doc_id d \<noteq> i) \<longrightarrow>
       delete_document w i s = (Abort 404, [])
     \<and> http_status (fst (delete_document w i s)) = 404)
   \<and> ((\<exists>d \<in> set (documents s). doc_id d = i) \<longrightarrow>
       (\<exists>doc. find (\<lambda>d. doc_id d = i) (documents s) = Some doc))
   \<and> (find (\<lambda>d. doc_id d = i) (documents s) = Some doc \<longrightarrow>
       doc \<in> set (documents s) \<and> doc_id doc = i
     \<and> http_status (fst (delete_document w i s)) = 200
     \<and> documents (final_db s (snd (delete_document w i s))) =
         filter (\<lambda>d. doc_id d \<noteq> i) (documents s)
     \<and> history_events (final_db s (snd (delete_document w i s))) =
         history_events s @
           [\<lparr>event_id = next_id (map event_id (history_events s)),
             event_type = ''DELETE_DOCUMENT'', document_name = filename doc,
             timestamp = utcnow w 0\<rparr>]
     \<and> fst (get_documents (final_db s (snd (delete_document w i s)))) =
         Response (JArr (map document_to_dict
           (order_by_desc (\<lambda>d. dt_key (upload_date d))
              (filter (\<lambda>d. doc_id d \<noteq> i) (documents s))))) 200
     \<and> document_to_dict doc \<notin> set (map document_to_dict
           (order_by_desc (\<lambda>d. dt_key (upload_date d))
              (filter (\<lambda>d. doc_id d \<noteq> i) (documents s))))
     \<and> set (order_by_desc (\<lambda>d. dt_key (upload_date d))
              (filter (\<lambda>d. doc_id d \<noteq> i) (documents s)))
         = {d \<in> set (documents s). doc_id d \<noteq> i})"
  (is "(?none \<longrightarrow> ?A1 \<and> ?A2) \<and> (?some \<longrightarrow> ?B) \<and>
       (?found \<longrightarrow> ?C1 \<and> ?C2 \<and> ?C3 \<and> ?C4 \<and> ?C5 \<and> ?C6 \<and> ?C7 \<and> ?C8)")
proof (intro conjI impI)
  assume ?none
  with bound show ?A1 by (rule delete_document_missing)
  then show ?A2 by simp
next
  assume ?some
  then show ?B by (rule find_key_exists)
next
  assume f: ?found
  from f show ?C1 using find_key_Some by blast
  from f show c2: ?C2 using find_key_Some by blast
  from bound f show ?C3 by (rule delete_document_found_result(1))
  from bound f show c4: ?C4 by (rule delete_document_found_result(2))
  from bound f show ?C5 by (rule delete_document_found_result(3))
  show ?C6 unfolding listing_after_delete c4 by (rule refl)
  from c2 show ?C7 by (rule deleted_not_listed)
  show ?C8 unfolding order_by_desc_set by simp
qed

lemma sample_db_rows:
  "find (\<lambda>d. doc_id d = 2) (documents sample_db) = Some (documents sample_db ! 1)"
  "filename (documents sample_db ! 1) = ''scan.pdf''"
  "\<forall>d \<in> set (documents sample_db). doc_id d \<noteq> 7"
  "map doc_id (filter (\<lambda>d. doc_id d \<noteq> 2) (documents sample_db)) = [1]"
  by (simp_all add: sample_db_def)

lemma small_ids: "2 \<le> sqlite_max_integer" "7 \<le> sqlite_max_integer"
  by (simp_all add: sqlite_max_integer_def)

lemma delete_document_sample:
  "find (\<lambda>d. doc_id d = 2) (documents sample_db) = Some (documents sample_db ! 1)
   \<and> http_status (fst (delete_document sample_world 2 sample_db)) = 200
   \<and> map doc_id (documents (final_db sample_db (snd (delete_document sample_world 2 sample_db))))
       = [1]
   \<and> map (\<lambda>e. (event_type e, document_name e))
        (logged sample_db (snd (delete_document sample_world 2 sample_db)))
       = [(''DELETE_DOCUMENT'', ''scan.pdf'')]
   \<and> map doc_id (documents sample_db) = [1, 2]
   \<and> http_status (fst (delete_document sample_world 7 sample_db)) = 404"
proof -
  note found = delete_document_result
    [OF small_ids(1), of sample_db sample_world "documents sample_db ! 1"]
  note missing = delete_document_result
    [OF small_ids(2), of sample_db sample_world "documents sample_db ! 1"]
  from found sample_db_rows(1)
  have a: "http_status (fst (delete_document sample_world 2 sample_db)) = 200"
    by blast
  from found sample_db_rows(1)
  have "documents (final_db sample_db (snd (delete_document sample_world 2 sample_db))) =
      filter (\<lambda>d. doc_id d \<noteq> 2) (documents sample_db)"
    by blast
  then have b: "map doc_id
      (documents (final_db sample_db (snd (delete_document sample_world 2 sample_db)))) = [1]"
    by (simp only: sample_db_rows(4))
  from found sample_db_rows(1)
  have "history_events (final_db sample_db (snd (delete_document sample_world 2 sample_db))) =
      history_events sample_db @
        [\<lparr>event_id = next_id (map event_id (history_events sample_db)),
          event_type = ''DELETE_DOCUMENT'', document_name = filename (documents sample_db ! 1),
          timestamp = utcnow sample_world 0\<rparr>]"
    by blast
  then have c: "map (\<lambda>e. (event_type e, document_name e))
        (logged sample_db (snd (delete_document sample_world 2 sample_db)))
       = [(''DELETE_DOCUMENT'', ''scan.pdf'')]"
    using sample_db_rows(2) by (simp add: logged_def)
  from missing sample_db_rows(3)
  have d: "http_status (fst (delete_document sample_world 7 sample_db)) = 404"
    by blast
  have ids: "map doc_id (documents sample_db) = [1, 2]"
    by (simp add: sample_db_def)
  from sample_db_rows(1) a b c ids d show ?thesis
    by (intro conjI) assumption+
qed

text \<open>
  C7 says that a \<open>DELETE\<close> for an id that no document has is answered with 404. The id
  9223372036854775808 is one: the route accepts it, no row can have it, and the answer is
  not 404. Binding it for the query raises \<open>OverflowError\<close>, which nothing in the view
  catches, so the request ends in status 500. Nothing is committed.
\<close>

theorem delete_document_large_id:
  "map doc_id (documents sample_db) = [1, 2]
   \<and> delete_document sample_world 9223372036854775808 sample_db =
       (Unhandled (OverflowError ''Python int too large to convert to SQLite INTEGER''), [])
   \<and> http_status (fst (delete_document sample_world 9223372036854775808 sample_db)) = 500"
proof -
  have big: "sqlite_max_integer < 9223372036854775808"
    by (simp add: sqlite_max_integer_def)
  have ids: "map doc_id (documents sample_db) = [1, 2]"
    by (simp add: sample_db_def)
  note run = delete_document_overflow [OF big, of sample_world sample_db]
  from ids run show ?thesis by simp
qed

section \<open>\<open>/ask\<close>: missing fields\<close>

text \<open>
  The view commits nothing, whatever the body. A body that is \<open>null\<close>, empty or zero,
  and an object that lacks one of the two fields, are answered with status 400.
\<close>

lemma ask_question_commits_nothing: "snd (ask_question w data s) = []"
  by (simp add: ask_question_def split: sum.splits)

lemma ask_question_missing_field:
  assumes "''document_text'' \<notin> set (map fst kvs) \<or> ''question'' \<notin> set (map fst kvs)"
  shows "ask_question w (JObj kvs) s = (missing_fields, [])"
  using assms by (auto simp add: ask_question_def)

lemma ask_question_falsy_body:
  assumes "\<not> truthy data"
  shows "ask_question w data s = (missing_fields, [])"
  using assms by (simp add: ask_question_def)

lemma http_status_missing_fields: "http_status missing_fields = 400"
  by (simp add: missing_fields_def)

text \<open>
  C8 asks for status 400 whenever the body lacks \<open>document_text\<close> or \<open>question\<close>. The
  body \<open>5\<close> has neither, and the view does not answer it with 400: the test
  \<open>'document_text' not in data\<close> raises \<open>TypeError\<close> on a number, nothing catches it,
  and the request ends in status 500. The database is untouched, as the claim says.
\<close>

theorem ask_question_number_body:
  "ask_question w (JInt 5) s = (Unhandled (not_iterable ''int''), [])
   \<and> http_status (fst (ask_question w (JInt 5) s)) = 500
   \<and> final_db s (snd (ask_question w (JInt 5) s)) = s"
  by (simp add: ask_question_def)

text \<open>
  A list or a string that holds both words passes the two membership tests and fails at
  \<open>data.get\<close>.
\<close>

lemma ask_question_list_body:
  "ask_question w (JArr [JStr ''document_text'', JStr ''question'']) s =
     (Unhandled (no_attribute ''list'' ''get''), [])"
  by (simp add: ask_question_def)

section \<open>Statuses and the history\<close>

lemma find_key_unique:
  "distinct (map doc_id ds) \<Longrightarrow> d \<in> set ds \<Longrightarrow> find (\<lambda>x. doc_id x = doc_id d) ds = Some d"
proof (induction ds)
  case Nil
  then show ?case by simp
next
  case (Cons a ds)
  show ?case
  proof (cases "d = a")
    case True
    then show ?thesis by simp
  next
    case False
    with Cons.prems have m: "d \<in> set ds" by simp
    from Cons.prems(1) have "doc_id a \<notin> doc_id ` set ds" by simp
    with m have "doc_id a \<noteq> doc_id d" by (metis imageI)
    moreover from Cons.prems(1) have "distinct (map doc_id ds)" by simp
    ultimately show ?thesis using Cons.IH m by simp
  qed
qed

lemma find_snoc:
  "find P (xs @ [y]) = (case find P xs of None \<Rightarrow> (if P y then Some y else None) | Some x \<Rightarrow> Some x)"
  by (induction xs) simp_all

lemma status_in_present:
  "distinct (map doc_id (documents s)) \<Longrightarrow> d \<in> set (documents s) \<Longrightarrow>
   status_in s (doc_id d) = Some (status d)"
  by (simp add: status_in_def find_key_unique)

lemma status_in_absent:
  "\<forall>d \<in> set (documents s). doc_id d \<noteq> i \<Longrightarrow> status_in s i = None"
  by (simp add: status_in_def find_key_None)

lemma status_in_log_event [simp]: "status_in (log_event now ty name s) i = status_in s i"
  by (simp add: status_in_def)

lemma transitions_log_event_left [simp]:
  "transitions (log_event now ty name s) s' = transitions s s'"
  by (simp add: transitions_def)

lemma transitions_log_event_right [simp]:
  "transitions s (log_event now ty name s') = transitions s s'"
  by (simp add: transitions_def)

lemma transitions_none:
  assumes "distinct (map doc_id (documents s))" and "set (documents s') \<subseteq> set (documents s)"
  shows "transitions s s' = []"
proof -
  have "\<forall>d \<in> set (documents s'). status_in s (doc_id d) = Some (status d)"
    using assms status_in_present by blast
  then have "filter (\<lambda>d. status_in s (doc_id d) \<noteq> Some (status d)) (documents s') = []"
    by (simp add: filter_empty_conv)
  then show ?thesis by (simp add: transitions_def)
qed

text \<open>One more row, under a fresh key: the only transition is its creation.\<close>

lemma transitions_insert:
  assumes "distinct (map doc_id (documents s))"
    and "\<forall>x \<in> set (documents s). doc_id x \<noteq> doc_id d"
    and "documents s' = documents s @ [d]"
  shows "transitions s s' = [(d, None)]"
proof -
  have old: "filter (\<lambda>x. status_in s (doc_id x) \<noteq> Some (status x)) (documents s) = []"
    using assms(1) status_in_present by (simp add: filter_empty_conv)
  have new: "status_in s (doc_id d) = None"
    using assms(2) by (rule status_in_absent)
  show ?thesis by (simp add: transitions_def assms(3) old new)
qed

text \<open>The last row replaced by a row of the same key.\<close>

lemma transitions_replace_last:
  assumes "distinct (map doc_id ds)"
    and "\<forall>x \<in> set ds. doc_id x \<noteq> doc_id d0"
    and "doc_id d1 = doc_id d0"
    and "documents a = ds @ [d0]" and "documents b = ds @ [d1]"
  shows "transitions a b = (if status d1 \<noteq> status d0 then [(d1, Some (status d0))] else [])"
proof -
  have old: "status_in a (doc_id x) = Some (status x)" if "x \<in> set ds" for x
    using that assms(1) by (simp add: status_in_def assms(4) find_snoc find_key_unique)
  then have f: "filter (\<lambda>x. status_in a (doc_id x) \<noteq> Some (status x)) ds = []"
    by (simp add: filter_empty_conv)
  have "find (\<lambda>x. doc_id x = doc_id d0) ds = None"
    using assms(2) by (simp add: find_key_None)
  then have new: "status_in a (doc_id d1) = Some (status d0)"
    using assms(3) by (simp add: status_in_def assms(4) find_snoc)
  show ?thesis using new by (simp add: transitions_def assms(5) f)
qed

lemma db_ok_documents:
  "db_ok s \<longleftrightarrow>
     distinct (map doc_id (documents s)) \<and> (\<forall>d \<in> set (documents s). status d \<in> set valid_statuses)"
  by (simp add: db_ok_def)

lemma db_ok_log_event [simp]: "db_ok (log_event now ty name s) = db_ok s"
  by (simp add: db_ok_def)

lemma db_ok_insert:
  assumes "db_ok s" and "doc_id d = next_id (map doc_id (documents s))"
    and "status d \<in> set valid_statuses"
  shows "db_ok (s\<lparr>documents := documents s @ [d]\<rparr>)"
  using assms next_id_fresh [of "map doc_id (documents s)"]
  by (simp add: db_ok_def)

lemma db_ok_delete_row: "db_ok s \<Longrightarrow> db_ok (delete_row i s)"
  by (simp add: db_ok_def distinct_map_filter)

lemma db_ok_empty: "db_ok empty_db"
  by (simp add: db_ok_def empty_db_def)

text \<open>
  The states that a \<open>/simplify\<close> request commits, when it commits any: the upload event,
  then the new row, then the closing event together with the row as the request leaves
  it.
\<close>

lemma simplify_document_shape:
  assumes "snd (simplify_document w req s) \<noteq> []"
  obtains name created closed ty where
    "snd (simplify_document w req s) =
       [log_event (utcnow w 0) ''UPLOAD_SUCCESS'' name s,
        (log_event (utcnow w 0) ''UPLOAD_SUCCESS'' name s)\<lparr>documents := documents s @ [created]\<rparr>,
        log_event (utcnow w 2) ty name
          ((log_event (utcnow w 0) ''UPLOAD_SUCCESS'' name s)\<lparr>documents := documents s @ [closed]\<rparr>)]"
    and "doc_id created = next_id (map doc_id (documents s))" and "doc_id closed = doc_id created"
    and "filename created = name" and "filename closed = name"
    and "(status created = ''Analysis Failed'' \<and> closed = created \<and> ty = ''TEXT_EXTRACT_FAIL'')
       \<or> (status created = ''In Progress'' \<and> status closed = ''Analyzed'' \<and> ty = ''ANALYSIS_SUCCESS'')
       \<or> (status created = ''In Progress'' \<and> status closed = ''Analysis Failed'' \<and> ty = ''ANALYSIS_FAIL'')"
proof -
  from assms obtain pdf_file where
    pdf: "files req ''pdfFile'' = Some pdf_file" and name: "fs_filename pdf_file \<noteq> []"
    using simplify_document_rejected(1) [of req w s]
    by (cases "files req ''pdfFile''") auto
  let ?name = "fs_filename pdf_file"
  let ?sel = "form_get req ''model'' ''gemini-1.5-flash''"
  let ?db1 = "log_event (utcnow w 0) ''UPLOAD_SUCCESS'' ?name s"
  show thesis
  proof (cases "not_extractable (extract_text_from_pdf w (stream pdf_file))")
    case True
    have run: "simplify_document w req s = extraction_failed w ?name ?sel ?db1"
      using pdf name True by (rule simplify_document_failed)
    show thesis
      by (rule that [where name = ?name and ty = "''TEXT_EXTRACT_FAIL''" and created =
            "\<lparr>doc_id = next_id (map doc_id (documents s)), filename = ?name,
              upload_date = utcnow w 1, status = ''Analysis Failed'',
              summary = Some ''Could not extract text from PDF.'', full_text = None,
              model_used = Some ?sel\<rparr>" and closed =
            "\<lparr>doc_id = next_id (map doc_id (documents s)), filename = ?name,
              upload_date = utcnow w 1, status = ''Analysis Failed'',
              summary = Some ''Could not extract text from PDF.'', full_text = None,
              model_used = Some ?sel\<rparr>"])
        (simp_all add: run extraction_failed_def Let_def add_document_def)
  next
    case False
    then obtain t where t: "extract_text_from_pdf w (stream pdf_file) = Some t" "py_strip t \<noteq> []"
      by (auto simp add: not_extractable_def split: option.splits)
    let ?prompt = "build_analysis_prompt t
        (form_get req ''prompt'' ''Provide a comprehensive analysis.'')"
    let ?d0 = "\<lparr>doc_id = next_id (map doc_id (documents s)), filename = ?name,
              upload_date = utcnow w 1, status = ''In Progress'', summary = None,
              full_text = Some t, model_used = Some ?sel\<rparr>"
    have run: "simplify_document w req s = analyse w req ?name ?sel t ?db1"
      using pdf name t by (rule simplify_document_analyse)
    show thesis
    proof (cases "generated_text w ?sel ?prompt")
      case (Inr summary_text)
      show thesis
        by (rule that [where name = ?name and created = ?d0 and ty = "''ANALYSIS_SUCCESS''"
              and closed = "?d0\<lparr>status := ''Analyzed'', summary := Some summary_text\<rparr>"])
          (simp_all add: run analyse_generated_text [OF Inr] add_document_def)
    next
      case (Inl e)
      show thesis
      proof (cases e rule: exn_cases)
        case (value_error m)
        with Inl have g: "generated_text w ?sel ?prompt = Inl (ValueError m)" by simp
        show thesis
          by (rule that [where name = ?name and created = ?d0 and ty = "''ANALYSIS_FAIL''" and closed =
                "?d0\<lparr>status := ''Analysis Failed'', summary := Some (''API Error: '' @ m)\<rparr>"])
            (simp_all add: run analyse_generated_value_error [OF g] add_document_def)
      next
        case other
        show thesis
          by (rule that [where name = ?name and created = ?d0 and ty = "''ANALYSIS_FAIL''" and closed =
                "?d0\<lparr>status := ''Analysis Failed'',
                      summary := Some (''Analysis failed: '' @ str_exn e)\<rparr>"])
            (simp_all add: run analyse_generated_other_error [OF Inl other] add_document_def)
      qed
    qed
  qed
qed

lemma simplify_document_db_ok:
  assumes "db_ok s" and "s' \<in> set (snd (simplify_document w req s))"
  shows "db_ok s'"
proof -
  from assms(2) have "snd (simplify_document w req s) \<noteq> []" by auto
  then obtain name created closed ty where
    tr: "snd (simplify_document w req s) =
       [log_event (utcnow w 0) ''UPLOAD_SUCCESS'' name s,
        (log_event (utcnow w 0) ''UPLOAD_SUCCESS'' name s)\<lparr>documents := documents s @ [created]\<rparr>,
        log_event (utcnow w 2) ty name
          ((log_event (utcnow w 0) ''UPLOAD_SUCCESS'' name s)\<lparr>documents := documents s @ [closed]\<rparr>)]"
    and ids: "doc_id created = next_id (map doc_id (documents s))" "doc_id closed = doc_id created"
    and st: "(status created = ''Analysis Failed'' \<and> closed = created \<and> ty = ''TEXT_EXTRACT_FAIL'')
       \<or> (status created = ''In Progress'' \<and> status closed = ''Analyzed'' \<and> ty = ''ANALYSIS_SUCCESS'')
       \<or> (status created = ''In Progress'' \<and> status closed = ''Analysis Failed'' \<and> ty = ''ANALYSIS_FAIL'')"
    by (rule simplify_document_shape)
  from st have v: "status created \<in> set valid_statuses" "status closed \<in> set valid_statuses"
    by (auto simp add: valid_statuses_def)
  have fresh: "next_id (map doc_id (documents s)) \<notin> doc_id ` set (documents s)"
    using next_id_fresh [of "map doc_id (documents s)"] by simp
  from assms(1) have ok: "distinct (map doc_id (documents s))"
      "\<forall>d \<in> set (documents s). status d \<in> set valid_statuses"
    by (simp_all add: db_ok_def)
  have "db_ok (log_event (utcnow w 0) ''UPLOAD_SUCCESS'' name s)"
    using assms(1) by simp
  moreover have "db_ok ((log_event (utcnow w 0) ''UPLOAD_SUCCESS'' name s)
      \<lparr>documents := documents s @ [created]\<rparr>)"
    using ok v(1) ids fresh by (simp add: db_ok_documents)
  moreover have "db_ok (log_event (utcnow w 2) ty name
      ((log_event (utcnow w 0) ''UPLOAD_SUCCESS'' name s)\<lparr>documents := documents s @ [closed]\<rparr>))"
    using ok v(2) ids fresh by (simp add: db_ok_documents)
  ultimately show ?thesis using assms(2) unfolding tr by auto
qed

lemma delete_document_commits:
  "snd (delete_document w i s) = [] \<or>
   (\<exists>doc :: document. snd (delete_document w i s) =
      [delete_row i s,
       log_event (utcnow w 0) ''DELETE_DOCUMENT'' (filename doc) (delete_row i s)])"
proof (cases "sqlite_max_integer < i")
  case True
  then show ?thesis by (simp add: delete_document_overflow)
next
  case False
  then have b: "i \<le> sqlite_max_integer" by simp
  show ?thesis
  proof (cases "find (\<lambda>d. doc_id d = i) (documents s)")
    case None
    then show ?thesis using b by (simp add: delete_document_def)
  next
    case (Some doc)
    have "snd (delete_document w i s) =
      [delete_row i s, log_event (utcnow w 0) ''DELETE_DOCUMENT'' (filename doc) (delete_row i s)]"
      unfolding delete_document_found [OF b Some] by simp
    then show ?thesis by blast
  qed
qed

lemma delete_document_db_ok:
  assumes "db_ok s" and "s' \<in> set (snd (delete_document w i s))"
  shows "db_ok s'"
  using delete_document_commits [of w i s]
proof (elim disjE exE)
  assume "snd (delete_document w i s) = []"
  with assms(2) show ?thesis by simp
next
  fix doc :: document
  assume "snd (delete_document w i s) =
      [delete_row i s, log_event (utcnow w 0) ''DELETE_DOCUMENT'' (filename doc) (delete_row i s)]"
  with assms(2) have "s' = delete_row i s \<or>
      s' = log_event (utcnow w 0) ''DELETE_DOCUMENT'' (filename doc) (delete_row i s)"
    by simp
  then show ?thesis using db_ok_delete_row [OF assms(1), of i] by auto
qed

lemma handle_db_ok:
  assumes "db_ok s" and "s' \<in> set (snd (handle c s))"
  shows "db_ok s'"
proof (cases c)
  case (Simplify w req)
  with assms show ?thesis by (simp add: simplify_document_db_ok)
next
  case (Ask w data)
  with assms show ?thesis by (simp add: ask_question_commits_nothing)
next
  case Documents
  with assms show ?thesis by (simp add: get_documents_def)
next
  case History
  with assms show ?thesis by (simp add: get_history_def)
next
  case (Delete w i)
  with assms show ?thesis by (simp add: delete_document_db_ok)
qed

lemma final_db_ok:
  assumes "db_ok s" and "\<forall>s' \<in> set commits. db_ok s'"
  shows "db_ok (final_db s commits)"
  using assms by (cases commits rule: rev_cases) (simp_all add: final_db_def)

lemma run_db_ok: "db_ok s \<Longrightarrow> \<forall>s' \<in> set (run cs s). db_ok s'"
proof (induction cs arbitrary: s)
  case Nil
  then show ?case by simp
next
  case (Cons c cs)
  have step: "\<forall>x \<in> set (snd (handle c s)). db_ok x"
    using Cons.prems handle_db_ok by blast
  then have "db_ok (final_db s (snd (handle c s)))"
    using Cons.prems by (simp add: final_db_ok)
  then have "\<forall>x \<in> set (run cs (final_db s (snd (handle c s)))). db_ok x"
    by (rule Cons.IH)
  with step show ?case by auto
qed

lemma simplify_document_transitions:
  assumes "db_ok s" and "(d, prior) \<in> set (request_transitions s (snd (simplify_document w req s)))"
  shows "\<exists>ty. transition_event prior (status d) = Some ty \<and>
           length (events_of ty (filename d) (logged s (snd (simplify_document w req s)))) = 1"
proof -
  from assms(2) have "snd (simplify_document w req s) \<noteq> []" by auto
  then obtain name created closed ty where
    tr: "snd (simplify_document w req s) =
       [log_event (utcnow w 0) ''UPLOAD_SUCCESS'' name s,
        (log_event (utcnow w 0) ''UPLOAD_SUCCESS'' name s)\<lparr>documents := documents s @ [created]\<rparr>,
        log_event (utcnow w 2) ty name
          ((log_event (utcnow w 0) ''UPLOAD_SUCCESS'' name s)\<lparr>documents := documents s @ [closed]\<rparr>)]"
    and ids: "doc_id created = next_id (map doc_id (documents s))" "doc_id closed = doc_id created"
    and names: "filename created = name" "filename closed = name"
    and st: "(status created = ''Analysis Failed'' \<and> closed = created \<and> ty = ''TEXT_EXTRACT_FAIL'')
       \<or> (status created = ''In Progress'' \<and> status closed = ''Analyzed'' \<and> ty = ''ANALYSIS_SUCCESS'')
       \<or> (status created = ''In Progress'' \<and> status closed = ''Analysis Failed'' \<and> ty = ''ANALYSIS_FAIL'')"
    by (rule simplify_document_shape)
  let ?db1 = "log_event (utcnow w 0) ''UPLOAD_SUCCESS'' name s"
  let ?db2 = "?db1\<lparr>documents := documents s @ [created]\<rparr>"
  let ?db3 = "?db1\<lparr>documents := documents s @ [closed]\<rparr>"
  from assms(1) have dist: "distinct (map doc_id (documents s))"
    by (simp add: db_ok_def)
  have fresh: "\<forall>x \<in> set (documents s). doc_id x \<noteq> doc_id created"
    using next_id_doc_fresh ids(1) by metis
  have t1: "transitions s ?db1 = []"
    using dist by (simp add: transitions_none)
  have t2: "transitions ?db1 ?db2 = [(created, None)]"
    using transitions_insert [OF dist fresh, of ?db2] by simp
  have t3: "transitions ?db2 (log_event (utcnow w 2) ty name ?db3) =
      (if status closed \<noteq> status created then [(closed, Some (status created))] else [])"
    using transitions_replace_last [OF dist fresh ids(2), of ?db2 ?db3] by simp
  have rt: "request_transitions s (snd (simplify_document w req s)) =
      (created, None) #
        (if status closed \<noteq> status created then [(closed, Some (status created))] else [])"
    unfolding tr by (simp only: request_transitions.simps t1 t2 t3 append_Nil append_Cons
        append_Nil2)
  have lg: "logged s (snd (simplify_document w req s)) =
      [\<lparr>event_id = next_id (map event_id (history_events s)),
        event_type = ''UPLOAD_SUCCESS'', document_name = name, timestamp = utcnow w 0\<rparr>,
       \<lparr>event_id = next_id (map event_id (history_events ?db1)),
        event_type = ty, document_name = name, timestamp = utcnow w 2\<rparr>]"
    unfolding tr by (simp add: logged_def history_events_log_event)
  from st show ?thesis
  proof (elim disjE conjE)
    assume a: "status created = ''Analysis Failed''" "closed = created" "ty = ''TEXT_EXTRACT_FAIL''"
    with assms(2) have "d = created" "prior = None"
      unfolding rt by simp_all
    then show ?thesis
      unfolding lg using a names by (simp add: transition_event_def events_of_def)
  next
    assume a: "status created = ''In Progress''" "status closed = ''Analyzed''"
      "ty = ''ANALYSIS_SUCCESS''"
    with assms(2) have "(d = created \<and> prior = None) \<or> (d = closed \<and> prior = Some ''In Progress'')"
      unfolding rt by auto
    then show ?thesis
      unfolding lg using a names by (auto simp add: transition_event_def events_of_def)
  next
    assume a: "status created = ''In Progress''" "status closed = ''Analysis Failed''"
      "ty = ''ANALYSIS_FAIL''"
    with assms(2) have "(d = created \<and> prior = None) \<or> (d = closed \<and> prior = Some ''In Progress'')"
      unfolding rt by auto
    then show ?thesis
      unfolding lg using a names by (auto simp add: transition_event_def events_of_def)
  qed
qed

lemma delete_document_no_transitions:
  assumes "db_ok s"
  shows "request_transitions s (snd (delete_document w i s)) = []"
  using delete_document_commits [of w i s]
proof (elim disjE exE)
  assume "snd (delete_document w i s) = []"
  then show ?thesis by simp
next
  fix doc :: document
  assume commits: "snd (delete_document w i s) =
      [delete_row i s, log_event (utcnow w 0) ''DELETE_DOCUMENT'' (filename doc) (delete_row i s)]"
  from assms have dist: "distinct (map doc_id (documents s))"
    by (simp add: db_ok_def)
  then have dist': "distinct (map doc_id (documents (delete_row i s)))"
    by (simp add: distinct_map_filter)
  have "transitions s (delete_row i s) = []"
    using dist by (rule transitions_none) simp
  moreover have "transitions (delete_row i s) (delete_row i s) = []"
    using dist' by (rule transitions_none) simp
  ultimately show ?thesis
    unfolding commits by simp
qed

lemma handle_transitions:
  assumes "db_ok s" and "(d, prior) \<in> set (request_transitions s (snd (handle c s)))"
  shows "\<exists>ty. transition_event prior (status d) = Some ty \<and>
           length (events_of ty (filename d) (logged s (snd (handle c s)))) = 1"
proof (cases c)
  case (Simplify w req)
  with assms show ?thesis
    using simplify_document_transitions [of s d prior w req] by simp
next
  case (Ask w data)
  with assms show ?thesis by (simp add: ask_question_commits_nothing)
next
  case Documents
  with assms show ?thesis by (simp add: get_documents_def)
next
  case History
  with assms show ?thesis by (simp add: get_history_def)
next
  case (Delete w i)
  with assms show ?thesis by (simp add: delete_document_no_transitions)
qed

text \<open>
  C3. Start from a database whose document keys are unique and whose statuses are among
  \<open>Pending\<close>, \<open>In Progress\<close>, \<open>Analyzed\<close> and \<open>Analysis Failed\<close> (the empty database
  is one). Then every state committed while any sequence of requests is served is such a
  database again: each row has its one status, and it is one of the four. And for every
  status transition that a request makes between two of its commits (a row created, or a
  row whose status changes), the request appends exactly one event of the type that
  records that transition, under the document's filename: \<open>UPLOAD_SUCCESS\<close> for a row
  created \<open>In Progress\<close>, \<open>TEXT_EXTRACT_FAIL\<close> for a row created \<open>Analysis Failed\<close>,
  \<open>ANALYSIS_SUCCESS\<close> and \<open>ANALYSIS_FAIL\<close> for a row leaving \<open>In Progress\<close>.
\<close>

theorem statuses_and_transitions:
  assumes "db_ok s"
  shows "(\<forall>s' \<in> set (run cs s). db_ok s'
            \<and> (\<forall>d \<in> set (documents s'). status d \<in> set valid_statuses))
       \<and> (\<forall>(d, prior) \<in> set (request_transitions s (snd (handle c s))).
            \<exists>ty. transition_event prior (status d) = Some ty \<and>
              length (events_of ty (filename d) (logged s (snd (handle c s)))) = 1)"
proof (intro conjI ballI)
  fix s' assume "s' \<in> set (run cs s)"
  with assms show ok: "db_ok s'" using run_db_ok by blast
  fix d assume "d \<in> set (documents s')"
  with ok show "status d \<in> set valid_statuses" by (simp add: db_ok_def)
next
  fix x assume x: "x \<in> set (request_transitions s (snd (handle c s)))"
  obtain d prior where "x = (d, prior)" by (cases x)
  with x assms show "case x of (d, prior) \<Rightarrow>
      \<exists>ty. transition_event prior (status d) = Some ty \<and>
        length (events_of ty (filename d) (logged s (snd (handle c s)))) = 1"
    using handle_transitions [of s d prior c] by simp
qed

lemma sample_run:
  "map (map status \<circ> documents)
     (run [Simplify sample_world sample_request, Simplify scanned_world sample_request,
           Documents] empty_db) =
   [[], [''In Progress''], [''Analyzed''],
    [''Analyzed''], [''Analyzed'', ''Analysis Failed''], [''Analyzed'', ''Analysis Failed'']]"
  by code_simp

lemma sample_transitions:
  "map (\<lambda>(d, prior). (prior, status d, filename d))
     (request_transitions empty_db
        (snd (handle (Simplify sample_world sample_request) empty_db))) =
   [(None, ''In Progress'', ''lease.pdf''), (Some ''In Progress'', ''Analyzed'', ''lease.pdf'')]"
  by code_simp

lemma sample_logged:
  "map event_type (logged empty_db
     (snd (handle (Simplify sample_world sample_request) empty_db))) =
   [''UPLOAD_SUCCESS'', ''ANALYSIS_SUCCESS'']"
  by code_simp

theorem statuses_and_transitions_witness:
  "list_all (\<lambda>s'. list_all (\<lambda>d. status d \<in> set valid_statuses) (documents s'))
     (run [Simplify sample_world sample_request, Simplify scanned_world sample_request,
           Documents] empty_db)
   \<and> map (map status \<circ> documents)
       (run [Simplify sample_world sample_request, Simplify scanned_world sample_request,
             Documents] empty_db) =
     [[], [''In Progress''], [''Analyzed''],
      [''Analyzed''], [''Analyzed'', ''Analysis Failed''], [''Analyzed'', ''Analysis Failed'']]
   \<and> map (\<lambda>(d, prior). (prior, status d, filename d))
       (request_transitions empty_db
          (snd (handle (Simplify sample_world sample_request) empty_db))) =
     [(None, ''In Progress'', ''lease.pdf''), (Some ''In Progress'', ''Analyzed'', ''lease.pdf'')]
   \<and> length (events_of ''UPLOAD_SUCCESS'' ''lease.pdf''
       (logged empty_db (snd (handle (Simplify sample_world sample_request) empty_db)))) = 1
   \<and> length (events_of ''ANALYSIS_SUCCESS'' ''lease.pdf''
       (logged empty_db (snd (handle (Simplify sample_world sample_request) empty_db)))) = 1"
proof -
  let ?cs = "[Simplify sample_world sample_request, Simplify scanned_world sample_request,
           Documents]"
  let ?c = "Simplify sample_world sample_request"
  let ?rt = "request_transitions empty_db (snd (handle ?c empty_db))"
  let ?lg = "logged empty_db (snd (handle ?c empty_db))"
  note inst = statuses_and_transitions [OF db_ok_empty, of ?cs ?c]
  from inst have a: "list_all (\<lambda>s'. list_all (\<lambda>d. status d \<in> set valid_statuses) (documents s'))
     (run ?cs empty_db)"
    by (simp add: list_all_iff)
  from inst have ev: "\<And>d prior. (d, prior) \<in> set ?rt \<Longrightarrow>
      \<exists>ty. transition_event prior (status d) = Some ty \<and>
        length (events_of ty (filename d) ?lg) = 1"
    by blast
  from sample_transitions obtain x y where xy: "?rt = [x, y]"
      and x: "(\<lambda>(d, prior). (prior, status d, filename d)) x = (None, ''In Progress'', ''lease.pdf'')"
      and y: "(\<lambda>(d, prior). (prior, status d, filename d)) y
                = (Some ''In Progress'', ''Analyzed'', ''lease.pdf'')"
    by (auto simp add: map_eq_Cons_conv)
  obtain dx px where dx: "x = (dx, px)" by (cases x)
  obtain dy py where dy: "y = (dy, py)" by (cases y)
  from x dx have fx: "px = None" "status dx = ''In Progress''" "filename dx = ''lease.pdf''"
    by simp_all
  from y dy have fy: "py = Some ''In Progress''" "status dy = ''Analyzed''"
      "filename dy = ''lease.pdf''"
    by simp_all
  have "(dx, px) \<in> set ?rt" unfolding xy dx by simp
  from ev [OF this] have b: "length (events_of ''UPLOAD_SUCCESS'' ''lease.pdf'' ?lg) = 1"
    unfolding fx by (auto simp add: transition_event_def)
  have "(dy, py) \<in> set ?rt" unfolding xy dy by simp
  from ev [OF this] have c: "length (events_of ''ANALYSIS_SUCCESS'' ''lease.pdf'' ?lg) = 1"
    unfolding fy by (auto simp add: transition_event_def)
  from a sample_run sample_transitions b c show ?thesis
    by (intro conjI) assumption+
qed

end
